theory Spec2Isabelle
  imports Complex_Main
begin

section \<open>Geometry taken from the geometry library\<close>

text \<open>
  The translators of \<^verbatim>\<open>honeybee_display\<close> read geometry through the accessors of the
  geometry library (\<^verbatim>\<open>ladybug_geometry\<close>), which is not part of the repository. Its
  vectors, faces and planes are modelled in this section. Coordinates are Python floats in
  the source; they are real numbers here, so every statement below is about exact
  arithmetic.
\<close>

datatype Vector3D = Vector3D (vx: real) (vy: real) (vz: real)

type_synonym Point3D = Vector3D

type_synonym LineSegment3D = "Point3D \<times> Point3D"

text \<open>
  A planar face: its boundary ring, its hole rings (\<^verbatim>\<open>None\<close> when there are none) and
  the derived properties the translators read (\<^verbatim>\<open>center\<close>, \<^verbatim>\<open>normal\<close>,
  \<^verbatim>\<open>min\<close>, \<^verbatim>\<open>max\<close>).
\<close>

record Face3D =
  boundary :: "Point3D list"
  holes :: "Point3D list list option"
  center :: Point3D
  normal :: Vector3D
  min_pt :: Point3D
  max_pt :: Point3D

text \<open>\<^verbatim>\<open>Face3D.has_holes\<close>: the face has a tuple of holes.\<close>

definition has_holes :: "Face3D \<Rightarrow> bool" where
  "has_holes face3d = (holes face3d \<noteq> None)"

text \<open>The number of hole rings of a face.\<close>

definition num_holes :: "Face3D \<Rightarrow> nat" where
  "num_holes face3d = (case holes face3d of None \<Rightarrow> 0 | Some hs \<Rightarrow> length hs)"

text \<open>
  Modelled from the spec: \<^verbatim>\<open>Face3D.boundary_segments\<close> of the geometry library, which is
  not under src/. Spec 4.1 and 8.6: one segment per consecutive point pair along the
  boundary ring, in input order, closing back to the first point.
\<close>

definition boundary_segments :: "Face3D \<Rightarrow> LineSegment3D list" where
  "boundary_segments face3d = zip (boundary face3d) (rotate1 (boundary face3d))"


section \<open>Display objects and Honeybee objects\<close>

text \<open>
  \<^verbatim>\<open>DisplayLineSegment3D(seg, line_width=lw)\<close> of the display library: a segment with
  its line width.
\<close>

record DisplayLineSegment3D =
  segment :: LineSegment3D
  line_width :: int

type_synonym Color = "nat \<times> nat \<times> nat"

text \<open>
  A Honeybee geometry object (Face, Aperture, Door or Shade) as the translators read it:
  its identifier and display name, whether it is an instance of \<^verbatim>\<open>Face\<close>, its
  \<^verbatim>\<open>geometry\<close>, its list of \<^verbatim>\<open>shades\<close> and its two colours. The type is recursive
  so that a shade may carry shades of its own.
\<close>

datatype hb_obj = HBObj
  (obj_identifier: string)
  (display_name: string)
  (is_Face: bool)
  (geometry: Face3D)
  (shades: "hb_obj list")
  (type_color: Color)
  (bc_color: Color)


section \<open>Wireframe extraction (colorobj.py)\<close>

text \<open>
  \<^verbatim>\<open>for seg in face3d.boundary_segments:
      wireframe.append(DisplayLineSegment3D(seg, line_width=line_width))\<close>
  The list \<^verbatim>\<open>wireframe\<close> is mutated in place in the source; here it is passed in and
  returned.
\<close>

fun boundary_loop ::
  "LineSegment3D list \<Rightarrow> int \<Rightarrow> DisplayLineSegment3D list \<Rightarrow> DisplayLineSegment3D list" where
  "boundary_loop [] lw wireframe = wireframe"
| "boundary_loop (seg # segs) lw wireframe =
     boundary_loop segs lw (wireframe @ [\<lparr>segment = seg, line_width = lw\<rparr>])"

text \<open>
  \<^verbatim>\<open>for hole in face3d.holes:
      for seg in face3d.boundary_segments:
          wireframe.append(DisplayLineSegment3D(seg, line_width=line_width))\<close>
  The inner loop runs over the boundary segments of the face, not over the hole.
\<close>

fun holes_loop ::
  "Point3D list list \<Rightarrow> LineSegment3D list \<Rightarrow> int \<Rightarrow> DisplayLineSegment3D list
     \<Rightarrow> DisplayLineSegment3D list" where
  "holes_loop [] segs lw wireframe = wireframe"
| "holes_loop (hole # hs) segs lw wireframe =
     holes_loop hs segs lw (boundary_loop segs lw wireframe)"

text \<open>
  The boundary loop followed by the guarded hole loop, as it stands five times in
  colorobj.py: \<^verbatim>\<open>if face3d.has_holes: for hole in face3d.holes: ...\<close>
\<close>

definition face3d_loops ::
  "Face3D \<Rightarrow> int \<Rightarrow> DisplayLineSegment3D list \<Rightarrow> DisplayLineSegment3D list" where
  "face3d_loops face3d lw wireframe =
     (let wireframe = boundary_loop (boundary_segments face3d) lw wireframe
      in if has_holes face3d
         then (case holes face3d of
                 None \<Rightarrow> wireframe
               | Some hs \<Rightarrow> holes_loop hs (boundary_segments face3d) lw wireframe)
         else wireframe)"

text \<open>
  \<^verbatim>\<open>for shade in geo_obj.shades\<close> of \<^verbatim>\<open>_process_wireframe\<close>: the geometry of each
  shade with line width 1. The shades of a shade are not read.
\<close>

fun shades_loop :: "hb_obj list \<Rightarrow> DisplayLineSegment3D list \<Rightarrow> DisplayLineSegment3D list" where
  "shades_loop [] wireframe = wireframe"
| "shades_loop (shade # rest) wireframe =
     (let sh_geo = geometry shade
      in shades_loop rest (face3d_loops sh_geo 1 wireframe))"

text \<open>\<^verbatim>\<open>_process_wireframe(geo_obj, wireframe, line_width=1)\<close>\<close>

definition process_wireframe ::
  "hb_obj \<Rightarrow> DisplayLineSegment3D list \<Rightarrow> int \<Rightarrow> DisplayLineSegment3D list" where
  "process_wireframe geo_obj wireframe lw =
     (let face3d = geometry geo_obj
      in shades_loop (shades geo_obj) (face3d_loops face3d lw wireframe))"

text \<open>
  \<^verbatim>\<open>_face_wireframe(faces)\<close>: the list of segments of the returned
  \<^verbatim>\<open>ContextGeometry('Wireframe', wireframe)\<close>. The shades of the faces are not read.
\<close>

fun face_wireframe_loop ::
  "hb_obj list \<Rightarrow> DisplayLineSegment3D list \<Rightarrow> DisplayLineSegment3D list" where
  "face_wireframe_loop [] wireframe = wireframe"
| "face_wireframe_loop (face # rest) wireframe =
     (let lw = (if is_Face face then 2 else 1);
          face3d = geometry face
      in face_wireframe_loop rest (face3d_loops face3d lw wireframe))"

definition face_wireframe :: "hb_obj list \<Rightarrow> DisplayLineSegment3D list" where
  "face_wireframe faces = face_wireframe_loop faces []"


section \<open>Vectors and planes of the geometry library\<close>

text \<open>
  Errors of the Python code as values: a failed \<^verbatim>\<open>assert\<close>, a float division by zero
  and a failed attribute lookup.
\<close>

datatype error = AssertionError | ZeroDivisionError | AttributeError

text \<open>Sequencing of computations that may raise: the first error ends the computation.\<close>

definition then_do :: "error + 'a \<Rightarrow> ('a \<Rightarrow> error + 'b) \<Rightarrow> error + 'b" where
  "then_do r f = (case r of Inl e \<Rightarrow> Inl e | Inr v \<Rightarrow> f v)"

text \<open>
  Modelled from the spec: the vector operations of the geometry library, which is not under
  src/ (spec 3: points, vectors and planes with rotation about an axis and translation
  along a vector). \<^verbatim>\<open>dot\<close>, \<^verbatim>\<open>cross\<close>, \<^verbatim>\<open>magnitude\<close>, \<^verbatim>\<open>normalize\<close> (a zero
  vector is returned as it is), \<^verbatim>\<open>__neg__\<close>, \<^verbatim>\<open>__mul__\<close> by a number, \<^verbatim>\<open>__add__\<close>
  and \<^verbatim>\<open>__sub__\<close>.
\<close>

definition dot :: "Vector3D \<Rightarrow> Vector3D \<Rightarrow> real" where
  "dot a b = vx a * vx b + vy a * vy b + vz a * vz b"

definition cross :: "Vector3D \<Rightarrow> Vector3D \<Rightarrow> Vector3D" where
  "cross a b = Vector3D (vy a * vz b - vz a * vy b)
                        (vz a * vx b - vx a * vz b)
                        (vx a * vy b - vy a * vx b)"

definition magnitude :: "Vector3D \<Rightarrow> real" where
  "magnitude v = sqrt ((vx v)\<^sup>2 + (vy v)\<^sup>2 + (vz v)\<^sup>2)"

definition normalize_vec :: "Vector3D \<Rightarrow> Vector3D" where
  "normalize_vec v =
     (let d = magnitude v
      in if d = 0 then v else Vector3D (vx v / d) (vy v / d) (vz v / d))"

definition vec_neg :: "Vector3D \<Rightarrow> Vector3D" where
  "vec_neg v = Vector3D (- vx v) (- vy v) (- vz v)"

definition vec_mul :: "Vector3D \<Rightarrow> real \<Rightarrow> Vector3D" where
  "vec_mul v s = Vector3D (vx v * s) (vy v * s) (vz v * s)"

definition vec_add :: "Vector3D \<Rightarrow> Vector3D \<Rightarrow> Vector3D" where
  "vec_add a b = Vector3D (vx a + vx b) (vy a + vy b) (vz a + vz b)"

definition vec_sub :: "Vector3D \<Rightarrow> Vector3D \<Rightarrow> Vector3D" where
  "vec_sub a b = Vector3D (vx a - vx b) (vy a - vy b) (vz a - vz b)"

text \<open>
  Modelled from the spec: \<^verbatim>\<open>Vector3D.rotate(axis, angle)\<close> of the geometry library, the
  rotation of a vector about an axis through the origin by an angle in radians, written
  out as the library computes it. The axis is divided by its length, so a zero axis raises
  \<^verbatim>\<open>ZeroDivisionError\<close>.
\<close>

definition vec_rotate :: "Vector3D \<Rightarrow> Vector3D \<Rightarrow> real \<Rightarrow> error + Vector3D" where
  "vec_rotate vec axis angle =
     (let r2 = (vx axis)\<^sup>2 + (vy axis)\<^sup>2 + (vz axis)\<^sup>2;
          r = sqrt r2
      in if r = 0 then Inl ZeroDivisionError
         else
           (let ct = cos angle;
                st = sin angle / r;
                dt = (vx axis * vx vec + vy axis * vy vec + vz axis * vz vec) * (1 - ct) / r2
            in Inr (Vector3D
                 (vx axis * dt + vx vec * ct + (- vz axis * vy vec + vy axis * vz vec) * st)
                 (vy axis * dt + vy vec * ct + (vz axis * vx vec - vx axis * vz vec) * st)
                 (vz axis * dt + vz vec * ct + (- vy axis * vx vec + vx axis * vy vec) * st))))"

text \<open>
  Modelled from the spec: \<^verbatim>\<open>Point3D.rotate(axis, angle, origin)\<close> of the geometry
  library: the point is rotated about the axis through \<^verbatim>\<open>origin\<close>.
\<close>

definition pt_rotate :: "Point3D \<Rightarrow> Vector3D \<Rightarrow> real \<Rightarrow> Point3D \<Rightarrow> error + Point3D" where
  "pt_rotate pt axis angle origin =
     then_do (vec_rotate (vec_sub pt origin) axis angle) (\<lambda>v. Inr (vec_add v origin))"

text \<open>
  A plane: its normal \<^verbatim>\<open>n\<close>, its origin \<^verbatim>\<open>o\<close> and its in-plane axes \<^verbatim>\<open>x\<close> and
  \<^verbatim>\<open>y\<close>.
\<close>

record Plane =
  plane_n :: Vector3D
  plane_o :: Point3D
  plane_x :: Vector3D
  plane_y :: Vector3D

text \<open>
  Modelled from the spec: the constructor \<^verbatim>\<open>Plane(n, o, x=None)\<close> of the geometry
  library, which is not under src/ (spec 4.2 step 3: a plane built from normal and origin
  with a library-default derivation of the in-plane axes), written out as the library
  computes it. The normal is normalised. With
  no X axis given, the X axis is (1, 0, 0) for a vertical normal and the normalised
  (n.y, -n.x, 0) otherwise. A given X axis is normalised and asserted to be orthogonal to
  the normal within 0.01. The Y axis is the cross product of normal and X axis.
\<close>

definition Plane_init :: "Vector3D \<Rightarrow> Point3D \<Rightarrow> Vector3D option \<Rightarrow> error + Plane" where
  "Plane_init n_in o_in x_in =
     (let n = normalize_vec n_in
      in case x_in of
           None \<Rightarrow>
             (let x = (if vx n = 0 \<and> vy n = 0 then Vector3D 1 0 0
                       else normalize_vec (Vector3D (vy n) (- vx n) 0))
              in Inr \<lparr>plane_n = n, plane_o = o_in, plane_x = x, plane_y = cross n x\<rparr>)
         | Some x_given \<Rightarrow>
             (let x = normalize_vec x_given
              in if \<bar>vx n * vx x + vy n * vy x + vz n * vz x\<bar> < 1 / 100
                 then Inr \<lparr>plane_n = n, plane_o = o_in, plane_x = x, plane_y = cross n x\<rparr>
                 else Inl AssertionError))"

text \<open>
  Modelled from the spec: \<^verbatim>\<open>Plane.rotate(axis, angle, origin)\<close>, a new plane from the
  rotated normal, origin and X axis, and \<^verbatim>\<open>Plane.move(moving_vec)\<close>, a new plane with
  the origin translated and the same normal and X axis.
\<close>

definition Plane_rotate :: "Plane \<Rightarrow> Vector3D \<Rightarrow> real \<Rightarrow> Point3D \<Rightarrow> error + Plane" where
  "Plane_rotate p axis angle origin =
     then_do (vec_rotate (plane_n p) axis angle) (\<lambda>n.
     then_do (pt_rotate (plane_o p) axis angle origin) (\<lambda>o_new.
     then_do (vec_rotate (plane_x p) axis angle) (\<lambda>x.
       Plane_init n o_new (Some x))))"

definition Plane_move :: "Plane \<Rightarrow> Vector3D \<Rightarrow> error + Plane" where
  "Plane_move p moving_vec =
     Plane_init (plane_n p) (vec_add (plane_o p) moving_vec) (Some (plane_x p))"


section \<open>Text labels (colorobj.py and energy/colorobj.py)\<close>

text \<open>A text label of the display library: its text, anchor plane, height, font and alignment.\<close>

record DisplayText3D =
  content :: string
  plane :: Plane
  height :: real
  font :: string
  horizontal_alignment :: string
  vertical_alignment :: string

text \<open>
  Modelled from the spec: the constructor \<^verbatim>\<open>DisplayText3D(text, plane, height, font=font,
  horizontal_alignment=..., vertical_alignment=...)\<close> of the display library, which is
  not under src/. It keeps its arguments and requires a text height greater than 0 (spec
  4.2, error conditions: a non-positive height fails, and so does a geometry of zero
  extent, whose height is 0); in Python the failed requirement is an
  \<^verbatim>\<open>AssertionError\<close>.
\<close>

definition DisplayText3D_init ::
  "string \<Rightarrow> Plane \<Rightarrow> real \<Rightarrow> string \<Rightarrow> string \<Rightarrow> string \<Rightarrow> error + DisplayText3D" where
  "DisplayText3D_init t base_plane h fnt h_align v_align =
     (if 0 < h
      then Inr \<lparr>content = t, plane = base_plane, height = h, font = fnt,
                horizontal_alignment = h_align, vertical_alignment = v_align\<rparr>
      else Inl AssertionError)"

text \<open>The legend parameters the translators read.\<close>

record LegendParameters =
  is_text_height_default :: bool
  text_height :: real
  legend_font :: string
  decimal_count :: nat

text \<open>
  \<^verbatim>\<open>txt_height = None if legend_parameters.is_text_height_default
      else legend_parameters.text_height\<close>
\<close>

definition txt_height_of :: "LegendParameters \<Rightarrow> real option" where
  "txt_height_of l_par =
     (if is_text_height_default l_par then None else Some (text_height l_par))"

text \<open>The geometry of a room: the properties of its \<^verbatim>\<open>Polyface3D\<close> that are read.\<close>

record Polyface3D =
  pf_center :: Point3D
  pf_min :: Point3D
  pf_max :: Point3D

record Room =
  room_geometry :: Polyface3D

text \<open>
  The statements of the loop over rooms in \<^verbatim>\<open>color_room_to_vis_set\<close> (colorobj.py,
  lines 43 to 52). A Python string is a list of characters, and \<^verbatim>\<open>len\<close> is its length.

  \<^verbatim>\<open>if txt_height is None:  # auto-calculate default text height
      txt_len = len(room_prop) if len(room_prop) > 10 else 10
      txt_h = (room.geometry.max.x - room.geometry.min.x) / txt_len
  else:
      txt_h = txt_height\<close>
\<close>

definition room_txt_h :: "real option \<Rightarrow> string \<Rightarrow> Room \<Rightarrow> real" where
  "room_txt_h txt_height room_prop room =
     (case txt_height of
        None \<Rightarrow>
          (let txt_len = (if length room_prop > 10 then length room_prop else 10)
           in (vx (pf_max (room_geometry room)) - vx (pf_min (room_geometry room)))
                / real txt_len)
      | Some h \<Rightarrow> h)"

text \<open>The label of one room: the body of the loop.\<close>

definition room_label :: "real option \<Rightarrow> string \<Rightarrow> string \<Rightarrow> Room \<Rightarrow> error + DisplayText3D" where
  "room_label txt_height fnt room_prop room =
     (let cent_pt = pf_center (room_geometry room)
      in then_do (Plane_init (Vector3D 0 0 1) cent_pt None) (\<lambda>base_plane.
         let txt_h = room_txt_h txt_height room_prop room
         in DisplayText3D_init room_prop base_plane txt_h fnt ''Center'' ''Middle''))"

text \<open>
  The statements of the loop over faces in \<^verbatim>\<open>color_face_to_vis_set\<close>, which are the
  same in colorobj.py (lines 113 to 133) and in energy/colorobj.py (lines 99 to 120).

  \<^verbatim>\<open>if base_plane.y.z < 0:  # base plane pointing downwards; rotate it
      base_plane = base_plane.rotate(base_plane.n, math.pi, base_plane.o)\<close>
\<close>

definition upright_plane :: "Plane \<Rightarrow> error + Plane" where
  "upright_plane base_plane =
     (if vz (plane_y base_plane) < 0
      then Plane_rotate base_plane (plane_n base_plane) pi (plane_o base_plane)
      else Inr base_plane)"

text \<open>
  \<^verbatim>\<open>if txt_height is None:  # auto-calculate default text height
      txt_len = len(face_prop) if len(face_prop) > 10 else 10
      largest_dim = max((f_geo.max.x - f_geo.min.x), (f_geo.max.y - f_geo.min.y))
      txt_h = largest_dim / (txt_len * 2)
  else:
      txt_h = txt_height\<close>
\<close>

definition face_txt_h :: "real option \<Rightarrow> string \<Rightarrow> Face3D \<Rightarrow> real" where
  "face_txt_h txt_height face_prop f_geo =
     (case txt_height of
        None \<Rightarrow>
          (let txt_len = (if length face_prop > 10 then length face_prop else 10);
               largest_dim = max (vx (max_pt f_geo) - vx (min_pt f_geo))
                                 (vy (max_pt f_geo) - vy (min_pt f_geo))
           in largest_dim / real (txt_len * 2))
      | Some h \<Rightarrow> h)"

text \<open>
  \<^verbatim>\<open>if base_plane.n.x != 0:
      m_vec = base_plane.y if base_plane.n.x < 0 else -base_plane.y
  else:
      m_vec = base_plane.y if base_plane.n.z < 0 else -base_plane.y\<close>
\<close>

definition move_vec :: "Plane \<Rightarrow> Vector3D" where
  "move_vec base_plane =
     (if vx (plane_n base_plane) \<noteq> 0
      then (if vx (plane_n base_plane) < 0 then plane_y base_plane
            else vec_neg (plane_y base_plane))
      else (if vz (plane_n base_plane) < 0 then plane_y base_plane
            else vec_neg (plane_y base_plane)))"

text \<open>The label of one face: the body of the loop.\<close>

definition face_label :: "real option \<Rightarrow> string \<Rightarrow> string \<Rightarrow> Face3D \<Rightarrow> error + DisplayText3D" where
  "face_label txt_height fnt face_prop f_geo =
     (let cent_pt = center f_geo
      in then_do (Plane_init (normal f_geo) cent_pt None) (\<lambda>base_plane.
         then_do (upright_plane base_plane) (\<lambda>base_plane.
         let txt_h = face_txt_h txt_height face_prop f_geo;
             m_vec = move_vec base_plane
         in then_do (Plane_move base_plane (vec_mul m_vec txt_h)) (\<lambda>base_plane.
            DisplayText3D_init face_prop base_plane txt_h fnt ''Center'' ''Middle''))))"

text \<open>
  The objects the label translators receive: a \<^verbatim>\<open>ColorRoom\<close> and a \<^verbatim>\<open>ColorFace\<close>
  with the string attributes of their rooms or flat faces, and the Honeybee-Energy
  \<^verbatim>\<open>ColorFace\<close> with the numeric values matched to its flat geometry.
\<close>

record ColorRoom =
  room_attributes :: "string list"
  rooms :: "Room list"
  room_legend_parameters :: LegendParameters

record ColorFace =
  attributes :: "string list"
  flat_geometry :: "Face3D list"
  legend_parameters :: LegendParameters

record EnergyColorFace =
  matched_values :: "real list"
  matched_flat_geometry :: "Face3D list"
  energy_legend_parameters :: LegendParameters

text \<open>
  \<^verbatim>\<open>for room_prop, room in zip(color_room.attributes, color_room.rooms)\<close> of
  \<^verbatim>\<open>color_room_to_vis_set\<close>, appending to \<^verbatim>\<open>label_text\<close>.
\<close>

fun room_labels_loop ::
  "real option \<Rightarrow> string \<Rightarrow> (string \<times> Room) list \<Rightarrow> DisplayText3D list
     \<Rightarrow> error + DisplayText3D list" where
  "room_labels_loop txt_height fnt [] label_text = Inr label_text"
| "room_labels_loop txt_height fnt ((room_prop, room) # rest) label_text =
     then_do (room_label txt_height fnt room_prop room) (\<lambda>label.
       room_labels_loop txt_height fnt rest (label_text @ [label]))"

text \<open>
  The \<^verbatim>\<open>text_labels\<close> branch of \<^verbatim>\<open>color_room_to_vis_set\<close> (colorobj.py, lines 36 to
  53): the list \<^verbatim>\<open>label_text\<close> handed to the \<^verbatim>\<open>ContextGeometry\<close>.
\<close>

definition color_room_label_text :: "ColorRoom \<Rightarrow> error + DisplayText3D list" where
  "color_room_label_text color_room =
     (let label_text = [];
          txt_height = txt_height_of (room_legend_parameters color_room);
          fnt = legend_font (room_legend_parameters color_room)
      in room_labels_loop txt_height fnt
           (zip (room_attributes color_room) (rooms color_room)) label_text)"

text \<open>
  \<^verbatim>\<open>for face_prop, f_geo in zip(color_face.attributes, color_face.flat_geometry):
      if face_prop != 'N/A': ...\<close> of \<^verbatim>\<open>color_face_to_vis_set\<close> in colorobj.py.
\<close>

fun face_labels_loop ::
  "real option \<Rightarrow> string \<Rightarrow> (string \<times> Face3D) list \<Rightarrow> DisplayText3D list
     \<Rightarrow> error + DisplayText3D list" where
  "face_labels_loop txt_height fnt [] label_text = Inr label_text"
| "face_labels_loop txt_height fnt ((face_prop, f_geo) # rest) label_text =
     (if face_prop \<noteq> ''N/A''
      then then_do (face_label txt_height fnt face_prop f_geo) (\<lambda>label.
             face_labels_loop txt_height fnt rest (label_text @ [label]))
      else face_labels_loop txt_height fnt rest label_text)"

text \<open>
  The \<^verbatim>\<open>text_labels\<close> branch of \<^verbatim>\<open>color_face_to_vis_set\<close> (colorobj.py, lines 105 to
  134): the list \<^verbatim>\<open>label_text\<close> handed to the \<^verbatim>\<open>ContextGeometry\<close>.
\<close>

definition color_face_label_text :: "ColorFace \<Rightarrow> error + DisplayText3D list" where
  "color_face_label_text color_face =
     (let label_text = [];
          txt_height = txt_height_of (legend_parameters color_face);
          fnt = legend_font (legend_parameters color_face)
      in face_labels_loop txt_height fnt
           (zip (attributes color_face) (flat_geometry color_face)) label_text)"

text \<open>
  The \<^verbatim>\<open>text_labels\<close> branch of \<^verbatim>\<open>color_face_to_vis_set\<close> in energy/colorobj.py
  (lines 94 to 121). Every value is formatted with \<^verbatim>\<open>f_str % face_val\<close>, where
  \<^verbatim>\<open>f_str = '%.{}f'.format(decimal_count)\<close>; Python's formatting of a float is the
  parameter \<open>format_float\<close>. There is no test for \<^verbatim>\<open>'N/A'\<close> here.
\<close>

fun energy_face_labels_loop ::
  "(nat \<Rightarrow> real \<Rightarrow> string) \<Rightarrow> real option \<Rightarrow> string \<Rightarrow> nat \<Rightarrow> (real \<times> Face3D) list
     \<Rightarrow> DisplayText3D list \<Rightarrow> error + DisplayText3D list" where
  "energy_face_labels_loop format_float txt_height fnt dc [] label_text = Inr label_text"
| "energy_face_labels_loop format_float txt_height fnt dc ((face_val, f_geo) # rest) label_text =
     (let face_prop = format_float dc face_val
      in then_do (face_label txt_height fnt face_prop f_geo) (\<lambda>label.
           energy_face_labels_loop format_float txt_height fnt dc rest (label_text @ [label])))"

definition energy_color_face_label_text ::
  "(nat \<Rightarrow> real \<Rightarrow> string) \<Rightarrow> EnergyColorFace \<Rightarrow> error + DisplayText3D list" where
  "energy_color_face_label_text format_float color_face =
     (let txt_height = txt_height_of (energy_legend_parameters color_face);
          fnt = legend_font (energy_legend_parameters color_face);
          dc = decimal_count (energy_legend_parameters color_face);
          label_text = []
      in energy_face_labels_loop format_float txt_height fnt dc
           (zip (matched_values color_face) (matched_flat_geometry color_face)) label_text)"


section \<open>Coloured display geometry (face.py and aperture.py)\<close>

text \<open>
  \<^verbatim>\<open>DisplayFace3D(geometry, color, display_mode)\<close>, \<^verbatim>\<open>ContextGeometry\<close> and
  \<^verbatim>\<open>VisualizationSet\<close> of the display library, as plain containers.
\<close>

record DisplayFace3D =
  df_geometry :: Face3D
  df_color :: Color
  df_display_mode :: string

record ContextGeometry =
  cg_identifier :: string
  cg_geometry :: "DisplayFace3D list"
  cg_display_name :: string

record VisualizationSet =
  vs_identifier :: string
  vs_geometry :: "ContextGeometry list"
  vs_display_name :: string

text \<open>
  A Honeybee \<^verbatim>\<open>Face\<close>: the attributes every geometry object has, its geometry with the
  sub-faces punched out, and its apertures and doors.
\<close>

record Face =
  face_obj :: hb_obj
  punched_geometry :: Face3D
  apertures :: "hb_obj list"
  doors :: "hb_obj list"

text \<open>
  \<^verbatim>\<open>str.lower()\<close> on a string of ASCII characters: the letters A to Z are replaced by
  a to z.
\<close>

definition lower :: "string \<Rightarrow> string" where
  "lower s = map (\<lambda>c. let k = (of_char c :: nat)
                       in if 65 \<le> k \<and> k \<le> 90 then char_of (k + 32) else c) s"

text \<open>
  \<^verbatim>\<open>getattr(obj, color_by_attr)\<close> for the two colour attributes that every Honeybee
  geometry object has; any other name is an \<^verbatim>\<open>AttributeError\<close> in this model.
\<close>

definition getattr_color :: "hb_obj \<Rightarrow> string \<Rightarrow> error + Color" where
  "getattr_color obj color_by_attr =
     (if color_by_attr = ''type_color'' then Inr (type_color obj)
      else if color_by_attr = ''bc_color'' then Inr (bc_color obj)
      else Inl AttributeError)"

text \<open>
  \<^verbatim>\<open>for shd in shaded_obj.shades:
      s_col = getattr(shd, color_by_attr)
      dis_geos.append(DisplayFace3D(shd.geometry, s_col, d_mod))\<close>
  This is \<^verbatim>\<open>_add_display_shade\<close> of face.py and the loop over the shades in
  \<^verbatim>\<open>aperture_to_vis_set\<close>.
\<close>

fun display_shade_loop ::
  "hb_obj list \<Rightarrow> DisplayFace3D list \<Rightarrow> string \<Rightarrow> string \<Rightarrow> error + DisplayFace3D list" where
  "display_shade_loop [] dis_geos color_by_attr d_mod = Inr dis_geos"
| "display_shade_loop (shd # rest) dis_geos color_by_attr d_mod =
     then_do (getattr_color shd color_by_attr) (\<lambda>s_col.
       display_shade_loop rest
         (dis_geos @ [\<lparr>df_geometry = geometry shd, df_color = s_col, df_display_mode = d_mod\<rparr>])
         color_by_attr d_mod)"

definition add_display_shade ::
  "hb_obj \<Rightarrow> DisplayFace3D list \<Rightarrow> string \<Rightarrow> string \<Rightarrow> error + DisplayFace3D list" where
  "add_display_shade shaded_obj dis_geos color_by_attr d_mod =
     display_shade_loop (shades shaded_obj) dis_geos color_by_attr d_mod"

text \<open>
  The loops over \<^verbatim>\<open>face._apertures\<close> and over \<^verbatim>\<open>face._doors\<close> in
  \<^verbatim>\<open>_face_display_geometry\<close>, which have the same body.
\<close>

fun sub_face_loop ::
  "hb_obj list \<Rightarrow> DisplayFace3D list \<Rightarrow> string \<Rightarrow> string \<Rightarrow> error + DisplayFace3D list" where
  "sub_face_loop [] dis_geos color_by_attr d_mod = Inr dis_geos"
| "sub_face_loop (ap # rest) dis_geos color_by_attr d_mod =
     then_do (getattr_color ap color_by_attr) (\<lambda>a_col.
     then_do (add_display_shade ap
                (dis_geos @ [\<lparr>df_geometry = geometry ap, df_color = a_col, df_display_mode = d_mod\<rparr>])
                color_by_attr d_mod) (\<lambda>dis_geos.
       sub_face_loop rest dis_geos color_by_attr d_mod))"

text \<open>\<^verbatim>\<open>_face_display_geometry(face, color_by_attr, d_mod='SurfaceWithEdges')\<close>\<close>

definition face_display_geometry :: "Face \<Rightarrow> string \<Rightarrow> string \<Rightarrow> error + DisplayFace3D list" where
  "face_display_geometry face color_by_attr d_mod =
     then_do (getattr_color (face_obj face) color_by_attr) (\<lambda>f_col.
     then_do (add_display_shade (face_obj face)
                [\<lparr>df_geometry = punched_geometry face, df_color = f_col, df_display_mode = d_mod\<rparr>]
                color_by_attr d_mod) (\<lambda>dis_geos.
     then_do (sub_face_loop (apertures face) dis_geos color_by_attr d_mod) (\<lambda>dis_geos.
       sub_face_loop (doors face) dis_geos color_by_attr d_mod)))"

text \<open>\<^verbatim>\<open>face_to_vis_set(face, color_by='type')\<close> of face.py\<close>

definition face_to_vis_set :: "Face \<Rightarrow> string \<Rightarrow> error + VisualizationSet" where
  "face_to_vis_set face color_by =
     (let color_by_attr = (if lower color_by = ''type'' then ''type_color'' else ''bc_color'')
      in then_do (face_display_geometry face color_by_attr ''SurfaceWithEdges'') (\<lambda>dis_geos.
         let con_geo = \<lparr>cg_identifier = obj_identifier (face_obj face), cg_geometry = dis_geos,
                        cg_display_name = display_name (face_obj face)\<rparr>
         in Inr \<lparr>vs_identifier = obj_identifier (face_obj face), vs_geometry = [con_geo],
                 vs_display_name = display_name (face_obj face)\<rparr>))"

text \<open>\<^verbatim>\<open>aperture_to_vis_set(aperture, color_by='type')\<close> of aperture.py\<close>

definition aperture_to_vis_set :: "hb_obj \<Rightarrow> string \<Rightarrow> error + VisualizationSet" where
  "aperture_to_vis_set aperture color_by =
     (let color_by_attr = (if lower color_by = ''type'' then ''type_color'' else ''bc_color'');
          d_mod = ''SurfaceWithEdges''
      in then_do (getattr_color aperture color_by_attr) (\<lambda>a_col.
         then_do (display_shade_loop (shades aperture)
                    [\<lparr>df_geometry = geometry aperture, df_color = a_col, df_display_mode = d_mod\<rparr>]
                    color_by_attr d_mod) (\<lambda>dis_geos.
         let con_geo = \<lparr>cg_identifier = obj_identifier aperture, cg_geometry = dis_geos,
                        cg_display_name = display_name aperture\<rparr>
         in Inr \<lparr>vs_identifier = obj_identifier aperture, vs_geometry = [con_geo],
                 vs_display_name = display_name aperture\<rparr>)))"

section \<open>Notions used in the statements\<close>

text \<open>The segments one face contributes: its boundary pass, once and once more per hole.\<close>

definition ring_passes :: "Face3D \<Rightarrow> int \<Rightarrow> DisplayLineSegment3D list" where
  "ring_passes face3d lw =
     concat (replicate (Suc (num_holes face3d))
       (map (\<lambda>seg. \<lparr>segment = seg, line_width = lw\<rparr>) (boundary_segments face3d)))"

text \<open>
  A plane as the constructor leaves it: normal and X axis are fixed by normalisation and
  orthogonal, and the Y axis is their cross product.
\<close>

definition plane_ok :: "Plane \<Rightarrow> bool" where
  "plane_ok p = (normalize_vec (plane_n p) = plane_n p \<and> normalize_vec (plane_x p) = plane_x p
     \<and> dot (plane_n p) (plane_x p) = 0 \<and> plane_y p = cross (plane_n p) (plane_x p))"

text \<open>
  The plane with its X and Y axes negated; the plane turned upright, which is negated when
  its Y axis points downwards; and the label of a face on a given upright plane, whose
  origin is the center of the face moved by the text height along \<open>move_vec\<close>.
\<close>

definition flipped :: "Plane \<Rightarrow> Plane" where
  "flipped p = p\<lparr>plane_x := vec_neg (plane_x p), plane_y := vec_neg (plane_y p)\<rparr>"

definition upright_of :: "Plane \<Rightarrow> Plane" where
  "upright_of p = (if vz (plane_y p) < 0 then flipped p else p)"

definition label_on :: "real option \<Rightarrow> string \<Rightarrow> string \<Rightarrow> Face3D \<Rightarrow> Plane \<Rightarrow> DisplayText3D" where
  "label_on th fnt fp g p =
     \<lparr>content = fp,
      plane = p\<lparr>plane_o := vec_add (center g) (vec_mul (move_vec p) (face_txt_h th fp g))\<rparr>,
      height = face_txt_h th fp g, font = fnt,
      horizontal_alignment = ''Center'', vertical_alignment = ''Middle''\<rparr>"

text \<open>
  The direction rule for the move of a label as spec 4.2 step 5 words it, to be compared
  with \<open>move_vec\<close>: for a normal with nonzero X, minus Y when X is positive and plus Y
  otherwise; for a normal with zero X, minus Y when Z is negative and plus Y otherwise.
\<close>

definition claimed_move_vec :: "Plane \<Rightarrow> Vector3D" where
  "claimed_move_vec base_plane =
     (if vx (plane_n base_plane) \<noteq> 0
      then (if vx (plane_n base_plane) > 0 then vec_neg (plane_y base_plane)
            else plane_y base_plane)
      else (if vz (plane_n base_plane) < 0 then vec_neg (plane_y base_plane)
            else plane_y base_plane))"


section \<open>Example objects\<close>

text \<open>
  A unit square in the plane z = 0 facing up, a triangle above it, and a second triangle.
\<close>

definition square_geo :: Face3D where
  "square_geo =
     \<lparr>boundary = [Vector3D 0 0 0, Vector3D 1 0 0, Vector3D 1 1 0, Vector3D 0 1 0],
      holes = None, center = Vector3D (1/2) (1/2) 0, normal = Vector3D 0 0 1,
      min_pt = Vector3D 0 0 0, max_pt = Vector3D 1 1 0\<rparr>"

definition tri_geo :: Face3D where
  "tri_geo =
     \<lparr>boundary = [Vector3D 0 0 1, Vector3D 1 0 1, Vector3D 0 1 1],
      holes = None, center = Vector3D (1/2) (1/2) 1, normal = Vector3D 0 0 1,
      min_pt = Vector3D 0 0 1, max_pt = Vector3D 1 1 1\<rparr>"

definition far_tri_geo :: Face3D where
  "far_tri_geo =
     \<lparr>boundary = [Vector3D 5 5 5, Vector3D 6 5 5, Vector3D 5 6 5],
      holes = None, center = Vector3D (11/2) (11/2) 5, normal = Vector3D 0 0 1,
      min_pt = Vector3D 5 5 5, max_pt = Vector3D 6 6 5\<rparr>"

text \<open>The unit square with one triangular hole.\<close>

definition holed_geo :: Face3D where
  "holed_geo =
     \<lparr>boundary = [Vector3D 0 0 0, Vector3D 1 0 0, Vector3D 1 1 0, Vector3D 0 1 0],
      holes = Some [[Vector3D (1/4) (1/4) 0, Vector3D (1/2) (1/4) 0, Vector3D (1/4) (1/2) 0]],
      center = Vector3D (1/2) (1/2) 0, normal = Vector3D 0 0 1,
      min_pt = Vector3D 0 0 0, max_pt = Vector3D 1 1 0\<rparr>"

text \<open>A vertical wall in the plane x = 0 facing along the X axis, 4 wide and 3 high.\<close>

definition wall_geo :: Face3D where
  "wall_geo =
     \<lparr>boundary = [Vector3D 0 0 0, Vector3D 0 4 0, Vector3D 0 4 3, Vector3D 0 0 3],
      holes = None, center = Vector3D 0 2 (3/2), normal = Vector3D 1 0 0,
      min_pt = Vector3D 0 0 0, max_pt = Vector3D 0 4 3\<rparr>"

text \<open>A face with no shades, and a face whose only shade carries a shade of its own.\<close>

definition square_face :: hb_obj where
  "square_face = HBObj ''face'' ''Face'' True square_geo [] (0, 0, 0) (0, 0, 0)"

definition holed_face :: hb_obj where
  "holed_face = HBObj ''face'' ''Face'' True holed_geo [] (0, 0, 0) (0, 0, 0)"

definition sub_shade :: hb_obj where
  "sub_shade = HBObj ''sub'' ''Sub Shade'' False far_tri_geo [] (0, 0, 0) (0, 0, 0)"

definition nested_shade :: hb_obj where
  "nested_shade = HBObj ''shade'' ''Shade'' False tri_geo [sub_shade] (0, 0, 0) (0, 0, 0)"

definition flat_shade :: hb_obj where
  "flat_shade = HBObj ''shade'' ''Shade'' False tri_geo [] (0, 0, 0) (0, 0, 0)"

definition nested_face :: hb_obj where
  "nested_face = HBObj ''face'' ''Face'' True square_geo [nested_shade] (0, 0, 0) (0, 0, 0)"

definition flat_face :: hb_obj where
  "flat_face = HBObj ''face'' ''Face'' True square_geo [flat_shade] (0, 0, 0) (0, 0, 0)"


text \<open>
  Legend parameters with the default text height, with an explicit height of -1 and with
  an explicit height of 1/2; a room with centroid (5, 5, 3) and an X extent of 10.
\<close>

definition default_par :: LegendParameters where
  "default_par = \<lparr>is_text_height_default = True, text_height = 0, legend_font = ''Arial'',
                   decimal_count = 2\<rparr>"

definition negative_par :: LegendParameters where
  "negative_par = \<lparr>is_text_height_default = False, text_height = - 1,
                    legend_font = ''Arial'', decimal_count = 2\<rparr>"

definition explicit_par :: LegendParameters where
  "explicit_par = \<lparr>is_text_height_default = False, text_height = 1/2,
                    legend_font = ''Arial'', decimal_count = 2\<rparr>"

definition office_room :: Room where
  "office_room = \<lparr>room_geometry =
     \<lparr>pf_center = Vector3D 5 5 3, pf_min = Vector3D 0 0 0, pf_max = Vector3D 10 10 6\<rparr>\<rparr>"

text \<open>
  A wall with one window that carries a shade, and a \<^verbatim>\<open>ColorFace\<close> of three faces of
  which the second has no value for the attribute.
\<close>

definition window :: hb_obj where
  "window = HBObj ''window'' ''Window'' False tri_geo [flat_shade] (64, 180, 255) (255, 255, 255)"

definition wall :: Face where
  "wall = \<lparr>face_obj = HBObj ''wall'' ''Wall'' True square_geo [] (230, 180, 60) (64, 180, 255),
            punched_geometry = square_geo, apertures = [window], doors = []\<rparr>"

definition sample_color_face :: ColorFace where
  "sample_color_face =
     \<lparr>attributes = [''Wall'', ''N/A'', ''RoofCeiling''],
      flat_geometry = [square_geo, tri_geo, far_tri_geo],
      legend_parameters = default_par\<rparr>"


section \<open>Properties of the wireframe extraction\<close>

lemma boundary_loop_append:
  "boundary_loop segs lw w0 = w0 @ map (\<lambda>seg. \<lparr>segment = seg, line_width = lw\<rparr>) segs"
  by (induction segs arbitrary: w0) simp_all

lemma holes_loop_append:
  "holes_loop hs segs lw w0 =
     w0 @ concat (replicate (length hs) (map (\<lambda>seg. \<lparr>segment = seg, line_width = lw\<rparr>) segs))"
  by (induction hs arbitrary: w0) (simp_all add: boundary_loop_append)

lemma face3d_loops_append: "face3d_loops face3d lw w0 = w0 @ ring_passes face3d lw"
  by (cases "holes face3d")
     (simp_all add: face3d_loops_def ring_passes_def has_holes_def num_holes_def
        boundary_loop_append holes_loop_append)

lemma shades_loop_append:
  "shades_loop shs w0 = w0 @ concat (map (\<lambda>shade. ring_passes (geometry shade) 1) shs)"
  by (induction shs arbitrary: w0) (simp_all add: face3d_loops_append)

lemma length_boundary_segments: "length (boundary_segments face3d) = length (boundary face3d)"
  by (simp add: boundary_segments_def)

lemma length_ring_passes:
  "length (ring_passes face3d lw) =
     length (boundary face3d) + length (boundary face3d) * num_holes face3d"
  by (simp add: ring_passes_def length_concat length_boundary_segments sum_list_replicate)

lemma concat_replicate_const:
  "concat (replicate k (replicate n a)) = replicate (k * n) a"
  by (induction k) (simp_all add: replicate_add)

lemma widths_ring_passes:
  "map line_width (ring_passes face3d lw) = replicate (length (ring_passes face3d lw)) lw"
  by (simp add: ring_passes_def map_concat map_replicate_const length_concat
        sum_list_replicate comp_def concat_replicate_const replicate_add)

lemma widths_shades:
  "map line_width (concat (map (\<lambda>shade. ring_passes (geometry shade) 1) shs)) =
     replicate (length (concat (map (\<lambda>shade. ring_passes (geometry shade) 1) shs))) 1"
  by (induction shs) (simp_all add: widths_ring_passes replicate_add)

lemma process_wireframe_append:
  "process_wireframe geo_obj w0 lw =
     w0 @ ring_passes (geometry geo_obj) lw
        @ concat (map (\<lambda>shade. ring_passes (geometry shade) 1) (shades geo_obj))"
  by (simp add: process_wireframe_def shades_loop_append face3d_loops_append)

lemma face_wireframe_loop_append:
  "face_wireframe_loop faces w0 =
     w0 @ concat (map (\<lambda>face. ring_passes (geometry face) (if is_Face face then 2 else 1)) faces)"
  by (induction faces arbitrary: w0) (simp_all add: face3d_loops_append)

text \<open>
  C1. For a geometry object whose boundary ring has N points and which has H holes,
  \<^verbatim>\<open>_process_wireframe\<close> appends, before the segments of the shades, the N boundary
  segments followed by H further copies of the same N boundary segments, N + N * H
  segments in all, each built from a boundary segment and none from a hole ring; with no
  holes these are the N boundary segments alone. \<^verbatim>\<open>_face_wireframe\<close> emits the same
  segments for each face of its list.
\<close>

theorem wireframe_segment_count:
  "process_wireframe geo_obj w0 lw =
     w0 @ concat (replicate (Suc (num_holes (geometry geo_obj)))
            (map (\<lambda>seg. \<lparr>segment = seg, line_width = lw\<rparr>)
               (boundary_segments (geometry geo_obj))))
        @ shades_loop (shades geo_obj) []
   \<and> length (boundary_segments (geometry geo_obj)) = length (boundary (geometry geo_obj))
   \<and> length (concat (replicate (Suc (num_holes (geometry geo_obj)))
            (map (\<lambda>seg. \<lparr>segment = seg, line_width = lw\<rparr>)
               (boundary_segments (geometry geo_obj)))))
       = length (boundary (geometry geo_obj))
         + length (boundary (geometry geo_obj)) * num_holes (geometry geo_obj)
   \<and> (holes (geometry geo_obj) = None \<and> shades geo_obj = [] \<longrightarrow>
        process_wireframe geo_obj [] lw =
          map (\<lambda>seg. \<lparr>segment = seg, line_width = lw\<rparr>) (boundary_segments (geometry geo_obj)))
   \<and> face_wireframe [geo_obj] =
        concat (replicate (Suc (num_holes (geometry geo_obj)))
          (map (\<lambda>seg. \<lparr>segment = seg, line_width = (if is_Face geo_obj then 2 else 1)\<rparr>)
             (boundary_segments (geometry geo_obj))))"
proof -
  have own: "length (ring_passes (geometry geo_obj) lw) =
      length (boundary (geometry geo_obj))
      + length (boundary (geometry geo_obj)) * num_holes (geometry geo_obj)"
    by (rule length_ring_passes)
  have no_holes: "holes (geometry geo_obj) = None \<Longrightarrow>
      ring_passes (geometry geo_obj) lw =
        map (\<lambda>seg. \<lparr>segment = seg, line_width = lw\<rparr>) (boundary_segments (geometry geo_obj))"
    by (simp add: ring_passes_def num_holes_def)
  show ?thesis
    using own no_holes
    by (simp add: process_wireframe_append shades_loop_append face_wireframe_def
          face_wireframe_loop_append length_boundary_segments ring_passes_def)
qed

text \<open>
  The square face with no holes and no shades and primary weight 2 yields exactly its four
  boundary segments in input order, closing back to the first point (spec 8.6). The square
  with one triangular hole yields the four boundary segments twice and no segment of the
  triangle.
\<close>

theorem wireframe_segment_count_witness:
  "holes (geometry square_face) = None \<and> shades square_face = [] \<and>
   process_wireframe square_face [] 2 =
     [\<lparr>segment = (Vector3D 0 0 0, Vector3D 1 0 0), line_width = 2\<rparr>,
      \<lparr>segment = (Vector3D 1 0 0, Vector3D 1 1 0), line_width = 2\<rparr>,
      \<lparr>segment = (Vector3D 1 1 0, Vector3D 0 1 0), line_width = 2\<rparr>,
      \<lparr>segment = (Vector3D 0 1 0, Vector3D 0 0 0), line_width = 2\<rparr>] \<and>
   process_wireframe holed_face [] 2 =
     [\<lparr>segment = (Vector3D 0 0 0, Vector3D 1 0 0), line_width = 2\<rparr>,
      \<lparr>segment = (Vector3D 1 0 0, Vector3D 1 1 0), line_width = 2\<rparr>,
      \<lparr>segment = (Vector3D 1 1 0, Vector3D 0 1 0), line_width = 2\<rparr>,
      \<lparr>segment = (Vector3D 0 1 0, Vector3D 0 0 0), line_width = 2\<rparr>,
      \<lparr>segment = (Vector3D 0 0 0, Vector3D 1 0 0), line_width = 2\<rparr>,
      \<lparr>segment = (Vector3D 1 0 0, Vector3D 1 1 0), line_width = 2\<rparr>,
      \<lparr>segment = (Vector3D 1 1 0, Vector3D 0 1 0), line_width = 2\<rparr>,
      \<lparr>segment = (Vector3D 0 1 0, Vector3D 0 0 0), line_width = 2\<rparr>]"
proof -
  have square: "holes (geometry square_face) = None \<and> shades square_face = []"
    by (simp add: square_face_def square_geo_def)
  have plain: "process_wireframe square_face [] 2 =
     [\<lparr>segment = (Vector3D 0 0 0, Vector3D 1 0 0), line_width = 2\<rparr>,
      \<lparr>segment = (Vector3D 1 0 0, Vector3D 1 1 0), line_width = 2\<rparr>,
      \<lparr>segment = (Vector3D 1 1 0, Vector3D 0 1 0), line_width = 2\<rparr>,
      \<lparr>segment = (Vector3D 0 1 0, Vector3D 0 0 0), line_width = 2\<rparr>]"
    using square wireframe_segment_count [of square_face "[]" 2]
    by (simp add: square_face_def square_geo_def boundary_segments_def num_holes_def)
  have holed: "process_wireframe holed_face [] 2 =
     [\<lparr>segment = (Vector3D 0 0 0, Vector3D 1 0 0), line_width = 2\<rparr>,
      \<lparr>segment = (Vector3D 1 0 0, Vector3D 1 1 0), line_width = 2\<rparr>,
      \<lparr>segment = (Vector3D 1 1 0, Vector3D 0 1 0), line_width = 2\<rparr>,
      \<lparr>segment = (Vector3D 0 1 0, Vector3D 0 0 0), line_width = 2\<rparr>,
      \<lparr>segment = (Vector3D 0 0 0, Vector3D 1 0 0), line_width = 2\<rparr>,
      \<lparr>segment = (Vector3D 1 0 0, Vector3D 1 1 0), line_width = 2\<rparr>,
      \<lparr>segment = (Vector3D 1 1 0, Vector3D 0 1 0), line_width = 2\<rparr>,
      \<lparr>segment = (Vector3D 0 1 0, Vector3D 0 0 0), line_width = 2\<rparr>]"
    by (simp add: process_wireframe_def face3d_loops_def has_holes_def holed_face_def
          holed_geo_def boundary_segments_def)
  show ?thesis
    using square plain holed by simp
qed

text \<open>
  C2. Whatever the primary line width, the segments \<^verbatim>\<open>_process_wireframe\<close> appends for
  the geometry of the object itself (the boundary pass and the passes repeated per hole)
  all carry the primary width, and the segments it appends for the shades of the object
  all carry width 1.
\<close>

theorem wireframe_weights:
  "map line_width (process_wireframe geo_obj w0 lw) =
     map line_width w0
     @ replicate (length (boundary (geometry geo_obj))
                  + length (boundary (geometry geo_obj)) * num_holes (geometry geo_obj)) lw
     @ replicate (length (shades_loop (shades geo_obj) [])) 1
   \<and> map line_width (shades_loop (shades geo_obj) []) =
       replicate (length (shades_loop (shades geo_obj) [])) 1"
proof -
  have own: "map line_width (ring_passes (geometry geo_obj) lw) =
      replicate (length (boundary (geometry geo_obj))
                 + length (boundary (geometry geo_obj)) * num_holes (geometry geo_obj)) lw"
    using widths_ring_passes [of "geometry geo_obj" lw]
    by (simp only: length_ring_passes)
  show ?thesis
    by (simp only: process_wireframe_append shades_loop_append map_append own widths_shades
          append_Nil simp_thms)
qed

text \<open>
  C9. \<^verbatim>\<open>_process_wireframe\<close> goes one level into the shades: its output consists of the
  segments of the geometry of the object and of the geometry of each shade in its shade
  list, and it is the same for two objects that agree on their geometry and on the
  geometry of their shades, whatever shades those shades carry.
\<close>

theorem wireframe_one_level:
  "process_wireframe a w0 lw =
     w0 @ ring_passes (geometry a) lw
        @ concat (map (\<lambda>shade. ring_passes (geometry shade) 1) (shades a))
   \<and> (geometry a = geometry b \<and> map geometry (shades a) = map geometry (shades b) \<longrightarrow>
        process_wireframe a w0 lw = process_wireframe b w0 lw)"
proof (intro conjI impI)
  show "process_wireframe a w0 lw =
      w0 @ ring_passes (geometry a) lw
         @ concat (map (\<lambda>shade. ring_passes (geometry shade) 1) (shades a))"
    by (rule process_wireframe_append)
next
  assume same: "geometry a = geometry b \<and> map geometry (shades a) = map geometry (shades b)"
  have via_geometry: "concat (map (\<lambda>shade. ring_passes (geometry shade) 1) shs) =
      concat (map (\<lambda>g. ring_passes g 1) (map geometry shs))" for shs
    by (simp add: comp_def)
  show "process_wireframe a w0 lw = process_wireframe b w0 lw"
    unfolding process_wireframe_append via_geometry
    by (simp only: same [THEN conjunct1] same [THEN conjunct2])
qed

text \<open>
  A face whose shade carries a shade of its own yields the segments of the face and of the
  shade only, the same as the face whose shade carries nothing.
\<close>

theorem wireframe_one_level_witness:
  "geometry nested_face = geometry flat_face \<and>
   map geometry (shades nested_face) = map geometry (shades flat_face) \<and>
   shades nested_shade = [sub_shade] \<and>
   process_wireframe nested_face [] 2 = process_wireframe flat_face [] 2 \<and>
   process_wireframe nested_face [] 2 =
     [\<lparr>segment = (Vector3D 0 0 0, Vector3D 1 0 0), line_width = 2\<rparr>,
      \<lparr>segment = (Vector3D 1 0 0, Vector3D 1 1 0), line_width = 2\<rparr>,
      \<lparr>segment = (Vector3D 1 1 0, Vector3D 0 1 0), line_width = 2\<rparr>,
      \<lparr>segment = (Vector3D 0 1 0, Vector3D 0 0 0), line_width = 2\<rparr>,
      \<lparr>segment = (Vector3D 0 0 1, Vector3D 1 0 1), line_width = 1\<rparr>,
      \<lparr>segment = (Vector3D 1 0 1, Vector3D 0 1 1), line_width = 1\<rparr>,
      \<lparr>segment = (Vector3D 0 1 1, Vector3D 0 0 1), line_width = 1\<rparr>]"
proof -
  have same: "geometry nested_face = geometry flat_face \<and>
      map geometry (shades nested_face) = map geometry (shades flat_face)"
    by (simp add: nested_face_def flat_face_def nested_shade_def flat_shade_def)
  have eq: "process_wireframe nested_face [] 2 = process_wireframe flat_face [] 2"
    using wireframe_one_level [of nested_face "[]" 2 flat_face] same by blast
  have val: "process_wireframe flat_face [] 2 =
     [\<lparr>segment = (Vector3D 0 0 0, Vector3D 1 0 0), line_width = 2\<rparr>,
      \<lparr>segment = (Vector3D 1 0 0, Vector3D 1 1 0), line_width = 2\<rparr>,
      \<lparr>segment = (Vector3D 1 1 0, Vector3D 0 1 0), line_width = 2\<rparr>,
      \<lparr>segment = (Vector3D 0 1 0, Vector3D 0 0 0), line_width = 2\<rparr>,
      \<lparr>segment = (Vector3D 0 0 1, Vector3D 1 0 1), line_width = 1\<rparr>,
      \<lparr>segment = (Vector3D 1 0 1, Vector3D 0 1 1), line_width = 1\<rparr>,
      \<lparr>segment = (Vector3D 0 1 1, Vector3D 0 0 1), line_width = 1\<rparr>]"
    by (simp add: process_wireframe_def face3d_loops_def has_holes_def flat_face_def
          flat_shade_def square_geo_def tri_geo_def boundary_segments_def)
  have sub: "shades nested_shade = [sub_shade]"
    by (simp add: nested_shade_def)
  show ?thesis
    using same eq val sub by simp
qed


section \<open>Properties of vectors and planes\<close>

lemma magnitude_sq: "(magnitude v)\<^sup>2 = (vx v)\<^sup>2 + (vy v)\<^sup>2 + (vz v)\<^sup>2"
  by (simp add: magnitude_def)

lemma magnitude_zero_iff: "magnitude v = 0 \<longleftrightarrow> v = Vector3D 0 0 0"
  by (cases v) (simp add: magnitude_def add_nonneg_eq_0_iff)

lemma magnitude_normalize: "magnitude v \<noteq> 0 \<Longrightarrow> magnitude (normalize_vec v) = 1"
proof -
  assume nz: "magnitude v \<noteq> 0"
  let ?d = "magnitude v"
  have "(vx v / ?d)\<^sup>2 + (vy v / ?d)\<^sup>2 + (vz v / ?d)\<^sup>2
        = ((vx v)\<^sup>2 + (vy v)\<^sup>2 + (vz v)\<^sup>2) / ?d\<^sup>2"
    by (simp add: power_divide add_divide_distrib)
  also have "\<dots> = 1"
    using nz by (simp add: magnitude_sq [symmetric])
  finally show ?thesis
    using nz by (simp add: normalize_vec_def Let_def magnitude_def)
qed

lemma normalize_unit: "magnitude v = 1 \<Longrightarrow> normalize_vec v = v"
  by (simp add: normalize_vec_def)

lemma normalize_idem: "normalize_vec (normalize_vec v) = normalize_vec v"
proof (cases "magnitude v = 0")
  case True
  then show ?thesis by (simp add: normalize_vec_def)
next
  case False
  then show ?thesis by (simp add: normalize_unit magnitude_normalize)
qed

lemma magnitude_neg: "magnitude (vec_neg v) = magnitude v"
  by (simp add: magnitude_def vec_neg_def)

lemma normalize_neg: "normalize_vec (vec_neg v) = vec_neg (normalize_vec v)"
  by (simp add: normalize_vec_def Let_def magnitude_neg) (simp add: vec_neg_def)

lemma rotate_axis_pi: "magnitude u = 1 \<Longrightarrow> vec_rotate u u pi = Inr u"
  by (cases u) (simp add: vec_rotate_def Let_def magnitude_def power2_eq_square [symmetric] algebra_simps)

lemma rotate_orth_pi:
  "magnitude u = 1 \<Longrightarrow> dot u x = 0 \<Longrightarrow> vec_rotate x u pi = Inr (vec_neg x)"
  by (cases u; cases x) (simp add: vec_rotate_def Let_def magnitude_def dot_def vec_neg_def)

lemma rotate_origin_pi: "magnitude u = 1 \<Longrightarrow> pt_rotate p u pi p = Inr p"
  by (cases u; cases p)
     (simp add: pt_rotate_def then_do_def vec_rotate_def Let_def magnitude_def vec_sub_def
        vec_add_def)


lemma Plane_init_default:
  "Plane_init n p None =
     Inr \<lparr>plane_n = normalize_vec n, plane_o = p,
          plane_x = (if vx (normalize_vec n) = 0 \<and> vy (normalize_vec n) = 0 then Vector3D 1 0 0
                     else normalize_vec (Vector3D (vy (normalize_vec n)) (- vx (normalize_vec n)) 0)),
          plane_y = cross (normalize_vec n)
                      (if vx (normalize_vec n) = 0 \<and> vy (normalize_vec n) = 0 then Vector3D 1 0 0
                       else normalize_vec (Vector3D (vy (normalize_vec n)) (- vx (normalize_vec n)) 0))\<rparr>"
  by (simp add: Plane_init_def Let_def)

lemma Plane_init_given:
  "normalize_vec n = n \<Longrightarrow> normalize_vec x = x \<Longrightarrow> dot n x = 0 \<Longrightarrow>
   Plane_init n p (Some x) = Inr \<lparr>plane_n = n, plane_o = p, plane_x = x, plane_y = cross n x\<rparr>"
  by (simp add: Plane_init_def Let_def dot_def)

text \<open>The default X axis for a normalised normal u.\<close>

lemma default_x_fixed:
  "normalize_vec (if vx u = 0 \<and> vy u = 0 then Vector3D 1 0 0
              else normalize_vec (Vector3D (vy u) (- vx u) 0)) =
   (if vx u = 0 \<and> vy u = 0 then Vector3D 1 0 0 else normalize_vec (Vector3D (vy u) (- vx u) 0))"
  by (simp add: normalize_idem) (simp add: normalize_vec_def magnitude_def)

lemma default_x_orth:
  "dot u (if vx u = 0 \<and> vy u = 0 then Vector3D 1 0 0
          else normalize_vec (Vector3D (vy u) (- vx u) 0)) = 0"
  by (simp add: dot_def normalize_vec_def Let_def)

lemma default_y_z:
  "vz (cross u (if vx u = 0 \<and> vy u = 0 then Vector3D 1 0 0
          else normalize_vec (Vector3D (vy u) (- vx u) 0))) =
   (if vx u = 0 \<and> vy u = 0 then 0 else - sqrt ((vx u)\<^sup>2 + (vy u)\<^sup>2))"
proof (cases "vx u = 0 \<and> vy u = 0")
  case True
  then show ?thesis by (simp add: cross_def)
next
  case False
  let ?L = "sqrt ((vy u)\<^sup>2 + (vx u)\<^sup>2)"
  have pos: "0 < (vy u)\<^sup>2 + (vx u)\<^sup>2"
    using False by (metis add.commute sum_power2_gt_zero_iff)
  have L0: "0 < ?L"
    using pos by (rule real_sqrt_gt_zero)
  have LL: "?L * ?L = (vy u)\<^sup>2 + (vx u)\<^sup>2"
    using pos by (simp add: abs_of_pos)
  have L: "?L \<noteq> 0"
    using L0 by linarith
  have "- (vx u * vx u) / ?L - vy u * vy u / ?L = - (((vy u)\<^sup>2 + (vx u)\<^sup>2) / ?L)"
    by (simp add: power2_eq_square add_divide_distrib)
  also have "\<dots> = - ?L"
    using L LL by (metis nonzero_mult_div_cancel_left)
  finally show ?thesis
    using False L by (simp add: cross_def normalize_vec_def Let_def magnitude_def add.commute)
qed


lemma dot_neg: "dot u (vec_neg x) = - dot u x"
  by (simp add: dot_def vec_neg_def)

lemma cross_neg: "cross u (vec_neg x) = vec_neg (cross u x)"
  by (simp add: cross_def vec_neg_def)

lemma Plane_move_closed:
  assumes "normalize_vec (plane_n p) = plane_n p" and "normalize_vec (plane_x p) = plane_x p"
    and "dot (plane_n p) (plane_x p) = 0" and "plane_y p = cross (plane_n p) (plane_x p)"
  shows "Plane_move p v = Inr (p\<lparr>plane_o := vec_add (plane_o p) v\<rparr>)"
  using assms by (simp add: Plane_move_def Plane_init_given)

lemma Plane_rotate_pi_closed:
  assumes unit: "magnitude (plane_n p) = 1" and fixed: "normalize_vec (plane_x p) = plane_x p"
    and orth: "dot (plane_n p) (plane_x p) = 0"
    and y: "plane_y p = cross (plane_n p) (plane_x p)"
  shows "Plane_rotate p (plane_n p) pi (plane_o p) =
           Inr (p\<lparr>plane_x := vec_neg (plane_x p), plane_y := vec_neg (plane_y p)\<rparr>)"
proof -
  have "Plane_rotate p (plane_n p) pi (plane_o p) =
          Plane_init (plane_n p) (plane_o p) (Some (vec_neg (plane_x p)))"
    using unit orth
    by (simp add: Plane_rotate_def then_do_def rotate_axis_pi rotate_origin_pi rotate_orth_pi)
  also have "\<dots> = Inr \<lparr>plane_n = plane_n p, plane_o = plane_o p,
      plane_x = vec_neg (plane_x p), plane_y = cross (plane_n p) (vec_neg (plane_x p))\<rparr>"
    using unit fixed orth
    by (intro Plane_init_given) (simp_all add: normalize_unit normalize_neg dot_neg)
  finally show ?thesis
    using y by (simp add: cross_neg)
qed

lemma tilted_unit:
  assumes "\<not> (vx (normalize_vec n) = 0 \<and> vy (normalize_vec n) = 0)"
  shows "magnitude (normalize_vec n) = 1"
proof (rule magnitude_normalize)
  show "magnitude n \<noteq> 0"
  proof
    assume z: "magnitude n = 0"
    then have "normalize_vec n = n" by (simp add: normalize_vec_def)
    moreover from z have "n = Vector3D 0 0 0" by (simp add: magnitude_zero_iff)
    ultimately show False using assms by simp
  qed
qed


lemma default_plane_ok:
  assumes "Plane_init n c None = Inr p0"
  shows "plane_ok p0" and "plane_n p0 = normalize_vec n" and "plane_o p0 = c"
    and "vz (plane_y p0) \<le> 0" and "vz (plane_y p0) < 0 \<Longrightarrow> magnitude (plane_n p0) = 1"
proof -
  let ?u = "normalize_vec n"
  let ?x = "if vx ?u = 0 \<and> vy ?u = 0 then Vector3D 1 0 0
            else normalize_vec (Vector3D (vy ?u) (- vx ?u) 0)"
  have p0: "p0 = \<lparr>plane_n = ?u, plane_o = c, plane_x = ?x, plane_y = cross ?u ?x\<rparr>"
    using assms by (simp only: Plane_init_default sum.inject)
  show "plane_ok p0"
    unfolding plane_ok_def p0
    by (simp only: Plane.simps normalize_idem default_x_fixed default_x_orth simp_thms)
  show "plane_n p0 = ?u" and "plane_o p0 = c"
    by (simp_all add: p0)
  have yz: "vz (plane_y p0) = (if vx ?u = 0 \<and> vy ?u = 0 then 0 else - sqrt ((vx ?u)\<^sup>2 + (vy ?u)\<^sup>2))"
    unfolding p0 by (simp only: Plane.simps default_y_z)
  show "vz (plane_y p0) \<le> 0"
    unfolding yz by simp
  show "magnitude (plane_n p0) = 1" if "vz (plane_y p0) < 0"
  proof -
    from that have "\<not> (vx ?u = 0 \<and> vy ?u = 0)"
      unfolding yz by (auto split: if_splits)
    then have "magnitude ?u = 1" by (rule tilted_unit)
    then show ?thesis by (simp add: p0)
  qed
qed

lemma Plane_rotate_pi_flipped:
  assumes "plane_ok p" and "magnitude (plane_n p) = 1"
  shows "Plane_rotate p (plane_n p) pi (plane_o p) = Inr (flipped p)"
  using assms unfolding plane_ok_def flipped_def by (intro Plane_rotate_pi_closed) simp_all

lemma upright_plane_closed:
  assumes ok: "plane_ok p" and unit: "vz (plane_y p) < 0 \<Longrightarrow> magnitude (plane_n p) = 1"
  shows "upright_plane p = Inr (upright_of p)"
proof (cases "vz (plane_y p) < 0")
  case True
  then show ?thesis
    using Plane_rotate_pi_flipped [OF ok unit] by (simp add: upright_plane_def upright_of_def)
next
  case False
  then show ?thesis by (simp add: upright_plane_def upright_of_def)
qed

lemma plane_ok_upright: "plane_ok p \<Longrightarrow> plane_ok (upright_of p)"
  by (simp add: plane_ok_def upright_of_def flipped_def normalize_neg dot_neg cross_neg)

lemma face_label_closed:
  assumes p0: "Plane_init (normal g) (center g) None = Inr p0"
  shows "upright_plane p0 = Inr (upright_of p0)"
    and "face_label th fnt fp g =
           (if 0 < face_txt_h th fp g then Inr (label_on th fnt fp g (upright_of p0))
            else Inl AssertionError)"
proof -
  note d = default_plane_ok [OF p0]
  show up: "upright_plane p0 = Inr (upright_of p0)"
    using d(1) d(5) by (rule upright_plane_closed)
  have ok1: "plane_ok (upright_of p0)"
    using d(1) by (rule plane_ok_upright)
  have o1: "plane_o (upright_of p0) = center g"
    using d(3) by (simp add: upright_of_def flipped_def)
  have mv: "Plane_move (upright_of p0) v =
      Inr ((upright_of p0)\<lparr>plane_o := vec_add (center g) v\<rparr>)" for v
    using ok1 o1 unfolding plane_ok_def by (simp add: Plane_move_closed)
  show "face_label th fnt fp g =
           (if 0 < face_txt_h th fp g then Inr (label_on th fnt fp g (upright_of p0))
            else Inl AssertionError)"
    by (simp add: face_label_def Let_def then_do_def p0 up mv label_on_def
          DisplayText3D_init_def)
qed

lemma face_label_total:
  "\<exists>p0. Plane_init (normal g) (center g) None = Inr p0
      \<and> upright_plane p0 = Inr (upright_of p0)
      \<and> vz (plane_y p0) \<le> 0
      \<and> face_label th fnt fp g =
           (if 0 < face_txt_h th fp g then Inr (label_on th fnt fp g (upright_of p0))
            else Inl AssertionError)"
proof -
  obtain p0 where p0: "Plane_init (normal g) (center g) None = Inr p0"
    by (simp add: Plane_init_default)
  show ?thesis
    using p0 face_label_closed [OF p0] default_plane_ok(4) [OF p0] by blast
qed

lemma upright_of_upward: "vz (plane_y p) \<le> 0 \<Longrightarrow> 0 \<le> vz (plane_y (upright_of p))"
  by (simp add: upright_of_def flipped_def vec_neg_def)

lemma face_label_fails:
  "\<not> 0 < face_txt_h th fp g \<Longrightarrow> face_label th fnt fp g = Inl AssertionError"
  using face_label_total [of g th fnt fp] by auto

lemma face_label_succeeds:
  "0 < face_txt_h th fp g \<Longrightarrow> \<exists>label. face_label th fnt fp g = Inr label"
  using face_label_total [of g th fnt fp] by auto

lemma face_label_positive:
  "face_label th fnt fp g = Inr label \<Longrightarrow> 0 < face_txt_h th fp g"
  using face_label_fails [of th fp g fnt] by fastforce

lemma face_label_upward:
  assumes "face_label th fnt fp g = Inr label"
  shows "0 \<le> vz (plane_y (plane label))"
proof -
  obtain p0 where below: "vz (plane_y p0) \<le> 0"
    and label: "face_label th fnt fp g =
           (if 0 < face_txt_h th fp g then Inr (label_on th fnt fp g (upright_of p0))
            else Inl AssertionError)"
    using face_label_total [of g th fnt fp] by blast
  from assms label have "label = label_on th fnt fp g (upright_of p0)"
    by (simp split: if_splits)
  then show ?thesis
    using upright_of_upward [OF below] by (simp add: label_on_def)
qed

lemma face_label_content:
  "face_label th fnt fp g = Inr label \<Longrightarrow> content label = fp"
  using face_label_total [of g th fnt fp] by (auto simp add: label_on_def split: if_splits)

lemma face_label_height:
  "face_label th fnt fp g = Inr label \<Longrightarrow> height label = face_txt_h th fp g"
  using face_label_total [of g th fnt fp] by (auto simp add: label_on_def split: if_splits)

lemma face_labels_loop_result:
  "face_labels_loop th fnt ps acc =
     (if list_all (\<lambda>(p, g). 0 < face_txt_h th p g) (filter (\<lambda>(p, g). p \<noteq> ''N/A'') ps)
      then Inr (acc @ map (\<lambda>(p, g). projr (face_label th fnt p g))
                        (filter (\<lambda>(p, g). p \<noteq> ''N/A'') ps))
      else Inl AssertionError)"
proof (induction ps arbitrary: acc)
  case Nil
  show ?case by simp
next
  case (Cons q ps)
  obtain p g where q: "q = (p, g)" by (cases q)
  show ?case
  proof (cases "p = ''N/A''")
    case True
    with Cons [of acc] q show ?thesis by simp
  next
    case False
    show ?thesis
    proof (cases "0 < face_txt_h th p g")
      case True
      then obtain l where l: "face_label th fnt p g = Inr l"
        using face_label_succeeds by blast
      with True False q Cons [of "acc @ [l]"] show ?thesis
        by (simp add: then_do_def)
    next
      case no: False
      then have "face_label th fnt p g = Inl AssertionError"
        by (rule face_label_fails)
      with no False q show ?thesis
        by (simp add: then_do_def)
    qed
  qed
qed

lemma energy_face_labels_loop_result:
  "energy_face_labels_loop ff th fnt dc ps acc =
     (if list_all (\<lambda>(v, g). 0 < face_txt_h th (ff dc v) g) ps
      then Inr (acc @ map (\<lambda>(v, g). projr (face_label th fnt (ff dc v) g)) ps)
      else Inl AssertionError)"
proof (induction ps arbitrary: acc)
  case Nil
  show ?case by simp
next
  case (Cons q ps)
  obtain v g where q: "q = (v, g)" by (cases q)
  show ?case
  proof (cases "0 < face_txt_h th (ff dc v) g")
    case True
    then obtain l where l: "face_label th fnt (ff dc v) g = Inr l"
      using face_label_succeeds by blast
    with True q Cons [of "acc @ [l]"] show ?thesis
      by (simp add: then_do_def)
  next
    case False
    then have "face_label th fnt (ff dc v) g = Inl AssertionError"
      by (rule face_label_fails)
    with False q show ?thesis
      by (simp add: then_do_def)
  qed
qed

lemma results_of_positive:
  assumes "list_all (\<lambda>q. \<exists>l. f q = Inr l) qs"
  shows "map Inr (map (\<lambda>q. projr (f q)) qs) = map f qs"
  using assms by (induction qs) auto

lemma list_all_results:
  assumes "map Inr ls = map f qs" and "\<And>q l. f q = Inr l \<Longrightarrow> P l"
  shows "list_all P ls"
  using assms(1)
proof (induction ls arbitrary: qs)
  case Nil
  show ?case by simp
next
  case (Cons l ls)
  then obtain q qs' where qs: "qs = q # qs'" by (cases qs) auto
  with Cons.prems have "f q = Inr l" and "map Inr ls = map f qs'" by simp_all
  then show ?case using Cons.IH assms(2) by simp
qed

lemma map_content_results:
  assumes "map Inr ls = map (\<lambda>(p, g). face_label th fnt p g) qs"
  shows "map content ls = map fst qs"
  using assms
proof (induction ls arbitrary: qs)
  case Nil
  then show ?case by simp
next
  case (Cons l ls)
  then obtain p g qs' where qs: "qs = (p, g) # qs'" by (cases qs) auto
  with Cons.prems have "face_label th fnt p g = Inr l"
    and "map Inr ls = map (\<lambda>(p, g). face_label th fnt p g) qs'" by simp_all
  then show ?case using Cons.IH qs by (simp add: face_label_content)
qed

lemma color_face_label_text_closed:
  "color_face_label_text color_face =
     (if list_all (\<lambda>(p, g). 0 < face_txt_h (txt_height_of (legend_parameters color_face)) p g)
           (filter (\<lambda>(p, g). p \<noteq> ''N/A'')
              (zip (attributes color_face) (flat_geometry color_face)))
      then Inr (map (\<lambda>(p, g). projr (face_label (txt_height_of (legend_parameters color_face))
                                          (legend_font (legend_parameters color_face)) p g))
                  (filter (\<lambda>(p, g). p \<noteq> ''N/A'')
                     (zip (attributes color_face) (flat_geometry color_face))))
      else Inl AssertionError)"
  by (simp add: color_face_label_text_def face_labels_loop_result)

lemma color_face_label_text_result:
  assumes "color_face_label_text color_face = Inr ls"
  shows "map Inr ls =
          map (\<lambda>(p, g). face_label (txt_height_of (legend_parameters color_face))
                           (legend_font (legend_parameters color_face)) p g)
            (filter (\<lambda>(p, g). p \<noteq> ''N/A'')
               (zip (attributes color_face) (flat_geometry color_face)))"
proof -
  let ?th = "txt_height_of (legend_parameters color_face)"
  let ?fnt = "legend_font (legend_parameters color_face)"
  let ?qs = "filter (\<lambda>(p, g). p \<noteq> ''N/A'')
               (zip (attributes color_face) (flat_geometry color_face))"
  from assms have pos: "list_all (\<lambda>(p, g). 0 < face_txt_h ?th p g) ?qs"
    and ls: "ls = map (\<lambda>(p, g). projr (face_label ?th ?fnt p g)) ?qs"
    by (simp_all add: color_face_label_text_closed split: if_splits)
  have "list_all (\<lambda>q. \<exists>l. (\<lambda>(p, g). face_label ?th ?fnt p g) q = Inr l) ?qs"
    using pos by (fastforce simp add: list_all_iff intro!: face_label_succeeds)
  then have "map Inr (map (\<lambda>q. projr ((\<lambda>(p, g). face_label ?th ?fnt p g) q)) ?qs)
               = map (\<lambda>(p, g). face_label ?th ?fnt p g) ?qs"
    by (rule results_of_positive)
  then show ?thesis
    by (simp add: ls case_prod_unfold)
qed

lemma energy_color_face_label_text_closed:
  "energy_color_face_label_text ff ecf =
     (if list_all (\<lambda>(v, g). 0 < face_txt_h (txt_height_of (energy_legend_parameters ecf))
                                (ff (decimal_count (energy_legend_parameters ecf)) v) g)
           (zip (matched_values ecf) (matched_flat_geometry ecf))
      then Inr (map (\<lambda>(v, g). projr (face_label (txt_height_of (energy_legend_parameters ecf))
                                          (legend_font (energy_legend_parameters ecf))
                                          (ff (decimal_count (energy_legend_parameters ecf)) v) g))
                  (zip (matched_values ecf) (matched_flat_geometry ecf)))
      else Inl AssertionError)"
  by (simp add: energy_color_face_label_text_def energy_face_labels_loop_result)

lemma energy_color_face_label_text_result:
  assumes "energy_color_face_label_text ff ecf = Inr ls"
  shows "map Inr ls =
          map (\<lambda>(v, g). face_label (txt_height_of (energy_legend_parameters ecf))
                           (legend_font (energy_legend_parameters ecf))
                           (ff (decimal_count (energy_legend_parameters ecf)) v) g)
            (zip (matched_values ecf) (matched_flat_geometry ecf))"
proof -
  let ?th = "txt_height_of (energy_legend_parameters ecf)"
  let ?fnt = "legend_font (energy_legend_parameters ecf)"
  let ?dc = "decimal_count (energy_legend_parameters ecf)"
  let ?qs = "zip (matched_values ecf) (matched_flat_geometry ecf)"
  from assms have pos: "list_all (\<lambda>(v, g). 0 < face_txt_h ?th (ff ?dc v) g) ?qs"
    and ls: "ls = map (\<lambda>(v, g). projr (face_label ?th ?fnt (ff ?dc v) g)) ?qs"
    by (simp_all add: energy_color_face_label_text_closed split: if_splits)
  have "list_all (\<lambda>q. \<exists>l. (\<lambda>(v, g). face_label ?th ?fnt (ff ?dc v) g) q = Inr l) ?qs"
    using pos by (fastforce simp add: list_all_iff intro!: face_label_succeeds)
  then have "map Inr (map (\<lambda>q. projr ((\<lambda>(v, g). face_label ?th ?fnt (ff ?dc v) g) q)) ?qs)
               = map (\<lambda>(v, g). face_label ?th ?fnt (ff ?dc v) g) ?qs"
    by (rule results_of_positive)
  then show ?thesis
    by (simp add: ls case_prod_unfold)
qed

lemma color_face_labels_upward:
  assumes "color_face_label_text color_face = Inr ls"
  shows "list_all (\<lambda>l. 0 \<le> vz (plane_y (plane l))) ls"
  using color_face_label_text_result [OF assms]
  by (rule list_all_results) (auto dest: face_label_upward)

lemma energy_color_face_labels_upward:
  assumes "energy_color_face_label_text ff ecf = Inr ls"
  shows "list_all (\<lambda>l. 0 \<le> vz (plane_y (plane l))) ls"
  using energy_color_face_label_text_result [OF assms]
  by (rule list_all_results) (auto dest: face_label_upward)

lemma fst_filter_na:
  "map fst (filter (\<lambda>(p, g). p \<noteq> ''N/A'') qs) = filter (\<lambda>p. p \<noteq> ''N/A'') (map fst qs)"
  by (induction qs) auto

lemma magnitude_cross_unit:
  assumes "magnitude u = 1" and "magnitude x = 1" and "dot u x = 0"
  shows "magnitude (cross u x) = 1"
proof -
  have u: "(vx u)\<^sup>2 + (vy u)\<^sup>2 + (vz u)\<^sup>2 = 1"
    using assms(1) magnitude_sq [of u] by simp
  have x: "(vx x)\<^sup>2 + (vy x)\<^sup>2 + (vz x)\<^sup>2 = 1"
    using assms(2) magnitude_sq [of x] by simp
  have "(vx (cross u x))\<^sup>2 + (vy (cross u x))\<^sup>2 + (vz (cross u x))\<^sup>2 =
        ((vx u)\<^sup>2 + (vy u)\<^sup>2 + (vz u)\<^sup>2) * ((vx x)\<^sup>2 + (vy x)\<^sup>2 + (vz x)\<^sup>2)
        - (dot u x)\<^sup>2"
    by (simp add: cross_def dot_def power2_eq_square algebra_simps)
  also have "\<dots> = 1"
    by (simp add: u x assms(3))
  finally show ?thesis
    by (simp add: magnitude_def)
qed

lemma default_plane_x_unit:
  assumes "Plane_init n c None = Inr p0"
  shows "magnitude (plane_x p0) = 1"
proof -
  let ?u = "normalize_vec n"
  let ?x = "if vx ?u = 0 \<and> vy ?u = 0 then Vector3D 1 0 0
            else normalize_vec (Vector3D (vy ?u) (- vx ?u) 0)"
  have p0: "p0 = \<lparr>plane_n = ?u, plane_o = c, plane_x = ?x, plane_y = cross ?u ?x\<rparr>"
    using assms by (simp only: Plane_init_default sum.inject)
  have "magnitude ?x = 1"
  proof (cases "vx ?u = 0 \<and> vy ?u = 0")
    case True
    then show ?thesis by (simp add: magnitude_def)
  next
    case False
    then have "Vector3D (vy ?u) (- vx ?u) 0 \<noteq> Vector3D 0 0 0" by auto
    then have "magnitude (Vector3D (vy ?u) (- vx ?u) 0) \<noteq> 0"
      by (simp only: magnitude_zero_iff not_False_eq_True)
    then have "magnitude (normalize_vec (Vector3D (vy ?u) (- vx ?u) 0)) = 1"
      by (rule magnitude_normalize)
    with False show ?thesis by (simp add: magnitude_def)
  qed
  then show ?thesis by (simp add: p0)
qed

lemma move_vec_unit:
  assumes p0: "Plane_init (normal g) (center g) None = Inr p0"
    and nz: "magnitude (normal g) \<noteq> 0"
  shows "magnitude (move_vec (upright_of p0)) = 1"
proof -
  note d = default_plane_ok [OF p0]
  have "magnitude (plane_n p0) = 1"
    using nz by (simp add: d(2) magnitude_normalize)
  moreover have "magnitude (plane_x p0) = 1"
    using p0 by (rule default_plane_x_unit)
  moreover have "dot (plane_n p0) (plane_x p0) = 0"
    and y0: "plane_y p0 = cross (plane_n p0) (plane_x p0)"
    using d(1) by (simp_all add: plane_ok_def)
  ultimately have "magnitude (plane_y p0) = 1"
    by (simp only: y0 magnitude_cross_unit)
  then have "magnitude (plane_y (upright_of p0)) = 1"
    by (simp add: upright_of_def flipped_def magnitude_neg)
  then show ?thesis
    by (simp add: move_vec_def magnitude_neg)
qed

lemma room_label_closed:
  "room_label th fnt rp room =
     (if 0 < room_txt_h th rp room
      then Inr \<lparr>content = rp,
                plane = \<lparr>plane_n = Vector3D 0 0 1, plane_o = pf_center (room_geometry room),
                         plane_x = Vector3D 1 0 0, plane_y = Vector3D 0 1 0\<rparr>,
                height = room_txt_h th rp room, font = fnt,
                horizontal_alignment = ''Center'', vertical_alignment = ''Middle''\<rparr>
      else Inl AssertionError)"
  by (simp add: room_label_def then_do_def Plane_init_def normalize_vec_def magnitude_def
        cross_def DisplayText3D_init_def)

lemma room_labels_loop_result:
  "room_labels_loop th fnt ps acc =
     (if list_all (\<lambda>(rp, room). 0 < room_txt_h th rp room) ps
      then Inr (acc @ map (\<lambda>(rp, room).
             \<lparr>content = rp,
              plane = \<lparr>plane_n = Vector3D 0 0 1, plane_o = pf_center (room_geometry room),
                       plane_x = Vector3D 1 0 0, plane_y = Vector3D 0 1 0\<rparr>,
              height = room_txt_h th rp room, font = fnt,
              horizontal_alignment = ''Center'', vertical_alignment = ''Middle''\<rparr>) ps)
      else Inl AssertionError)"
  by (induction ps arbitrary: acc) (auto simp add: room_label_closed then_do_def)

lemma room_auto_height:
  "room_txt_h None rp room =
     (vx (pf_max (room_geometry room)) - vx (pf_min (room_geometry room)))
       / real (max (length rp) 10)"
  by (simp add: room_txt_h_def max_def)

lemma face_auto_height:
  "face_txt_h None fp g =
     max (vx (max_pt g) - vx (min_pt g)) (vy (max_pt g) - vy (min_pt g))
       / real (max (length fp) 10 * 2)"
  by (simp add: face_txt_h_def Let_def max_def)

lemma height_decreases:
  fixes e :: real
  assumes "0 < e" and "a < b" and "10 < b"
  shows "e / real (max b 10) < e / real (max a 10)"
proof -
  have "max a 10 < max b 10" using assms by simp
  then have "real (max a 10) < real (max b 10)" by (simp only: of_nat_less_iff)
  moreover have "0 < real (max a 10)" by simp
  ultimately show ?thesis
    using assms(1) by (simp add: divide_strict_left_mono)
qed


section \<open>Properties of the label placement\<close>

text \<open>
  C3. Every face label that is built has an anchor plane whose Y axis has a vertical
  component that is not negative: the plane built from the normal and the center of the
  face is rotated by pi about its own normal exactly when its Y axis points downwards,
  which negates the Y axis, and the later move of the origin leaves normal, X axis and Y
  axis as they are. A label is built whenever the text height is positive. This holds for
  the label of one face and for every label of the lists that \<^verbatim>\<open>color_face_to_vis_set\<close>
  returns in colorobj.py and in energy/colorobj.py.
\<close>

theorem face_label_upright:
  "(\<exists>p0 p1.
      Plane_init (normal f_geo) (center f_geo) None = Inr p0
    \<and> upright_plane p0 = Inr p1
    \<and> plane_y p1 = (if vz (plane_y p0) < 0 then vec_neg (plane_y p0) else plane_y p0)
    \<and> (\<forall>label. face_label txt_height fnt face_prop f_geo = Inr label \<longrightarrow>
           plane_n (plane label) = plane_n p1
         \<and> plane_x (plane label) = plane_x p1
         \<and> plane_y (plane label) = plane_y p1
         \<and> 0 \<le> vz (plane_y (plane label)))
    \<and> (0 < face_txt_h txt_height face_prop f_geo \<longrightarrow>
           (\<exists>label. face_label txt_height fnt face_prop f_geo = Inr label)))
   \<and> (\<forall>ls. color_face_label_text color_face = Inr ls \<longrightarrow>
          list_all (\<lambda>l. 0 \<le> vz (plane_y (plane l))) ls)
   \<and> (\<forall>ls. energy_color_face_label_text format_float energy_color_face = Inr ls \<longrightarrow>
          list_all (\<lambda>l. 0 \<le> vz (plane_y (plane l))) ls)"
proof (intro conjI allI impI)
  obtain p0 where p0: "Plane_init (normal f_geo) (center f_geo) None = Inr p0"
    and up: "upright_plane p0 = Inr (upright_of p0)"
    and below: "vz (plane_y p0) \<le> 0"
    and label: "face_label txt_height fnt face_prop f_geo =
           (if 0 < face_txt_h txt_height face_prop f_geo
            then Inr (label_on txt_height fnt face_prop f_geo (upright_of p0))
            else Inl AssertionError)"
    using face_label_total [of f_geo txt_height fnt face_prop] by blast
  have axes: "plane_n (plane l) = plane_n (upright_of p0)
       \<and> plane_x (plane l) = plane_x (upright_of p0)
       \<and> plane_y (plane l) = plane_y (upright_of p0)
       \<and> 0 \<le> vz (plane_y (plane l))"
    if "face_label txt_height fnt face_prop f_geo = Inr l" for l
  proof -
    from that label have "l = label_on txt_height fnt face_prop f_geo (upright_of p0)"
      by (simp split: if_splits)
    then show ?thesis
      using upright_of_upward [OF below] by (simp add: label_on_def)
  qed
  have built: "\<exists>l. face_label txt_height fnt face_prop f_geo = Inr l"
    if "0 < face_txt_h txt_height face_prop f_geo"
    using that by (rule face_label_succeeds)
  have y1: "plane_y (upright_of p0) =
      (if vz (plane_y p0) < 0 then vec_neg (plane_y p0) else plane_y p0)"
    by (simp add: upright_of_def flipped_def)
  show "\<exists>p0 p1.
      Plane_init (normal f_geo) (center f_geo) None = Inr p0
    \<and> upright_plane p0 = Inr p1
    \<and> plane_y p1 = (if vz (plane_y p0) < 0 then vec_neg (plane_y p0) else plane_y p0)
    \<and> (\<forall>label. face_label txt_height fnt face_prop f_geo = Inr label \<longrightarrow>
           plane_n (plane label) = plane_n p1
         \<and> plane_x (plane label) = plane_x p1
         \<and> plane_y (plane label) = plane_y p1
         \<and> 0 \<le> vz (plane_y (plane label)))
    \<and> (0 < face_txt_h txt_height face_prop f_geo \<longrightarrow>
           (\<exists>label. face_label txt_height fnt face_prop f_geo = Inr label))"
    using p0 up y1 axes built by blast
next
  fix ls
  assume "color_face_label_text color_face = Inr ls"
  then show "list_all (\<lambda>l. 0 \<le> vz (plane_y (plane l))) ls"
    by (rule color_face_labels_upward)
next
  fix ls
  assume "energy_color_face_label_text format_float energy_color_face = Inr ls"
  then show "list_all (\<lambda>l. 0 \<le> vz (plane_y (plane l))) ls"
    by (rule energy_color_face_labels_upward)
qed

text \<open>
  The vertical wall: the plane built from its normal and center has the Y axis (0, 0, -1),
  and its label has the Y axis (0, 0, 1), the text height 4 / 20 and the origin moved down
  by that height.
\<close>

theorem face_label_upright_witness:
  "Plane_init (normal wall_geo) (center wall_geo) None =
     Inr \<lparr>plane_n = Vector3D 1 0 0, plane_o = Vector3D 0 2 (3/2),
          plane_x = Vector3D 0 (- 1) 0, plane_y = Vector3D 0 0 (- 1)\<rparr>
   \<and> 0 < face_txt_h None ''Wall'' wall_geo
   \<and> face_label None ''Arial'' ''Wall'' wall_geo =
     Inr \<lparr>content = ''Wall'',
          plane = \<lparr>plane_n = Vector3D 1 0 0, plane_o = Vector3D 0 2 (13/10),
                   plane_x = Vector3D 0 1 0, plane_y = Vector3D 0 0 1\<rparr>,
          height = 1/5,
          font = ''Arial'', horizontal_alignment = ''Center'', vertical_alignment = ''Middle''\<rparr>
   \<and> (\<exists>label. face_label None ''Arial'' ''Wall'' wall_geo = Inr label
          \<and> 0 \<le> vz (plane_y (plane label)))"
proof -
  have default: "Plane_init (normal wall_geo) (center wall_geo) None =
     Inr \<lparr>plane_n = Vector3D 1 0 0, plane_o = Vector3D 0 2 (3/2),
          plane_x = Vector3D 0 (- 1) 0, plane_y = Vector3D 0 0 (- 1)\<rparr>"
    by (simp add: Plane_init_def normalize_vec_def magnitude_def cross_def wall_geo_def)
  have pos: "0 < face_txt_h None ''Wall'' wall_geo"
    by (simp add: face_txt_h_def wall_geo_def)
  have placed: "face_label None ''Arial'' ''Wall'' wall_geo =
     Inr \<lparr>content = ''Wall'',
          plane = \<lparr>plane_n = Vector3D 1 0 0, plane_o = Vector3D 0 2 (13/10),
                   plane_x = Vector3D 0 1 0, plane_y = Vector3D 0 0 1\<rparr>,
          height = 1/5,
          font = ''Arial'', horizontal_alignment = ''Center'', vertical_alignment = ''Middle''\<rparr>"
    by (simp add: face_label_def then_do_def Plane_init_def normalize_vec_def
          magnitude_def cross_def upright_plane_def face_txt_h_def move_vec_def Plane_move_def
          Plane_rotate_def vec_rotate_def pt_rotate_def vec_sub_def
          vec_neg_def vec_mul_def vec_add_def wall_geo_def DisplayText3D_init_def)
  have "\<exists>label. face_label None ''Arial'' ''Wall'' wall_geo = Inr label
          \<and> 0 \<le> vz (plane_y (plane label))"
    using pos face_label_upright [of wall_geo None "''Arial''" "''Wall''"] by blast
  with default pos placed show ?thesis by blast
qed

text \<open>
  C10. In the text-label branch of \<^verbatim>\<open>color_face_to_vis_set\<close> of colorobj.py, a face whose
  attribute is the string \<^verbatim>\<open>'N/A'\<close> gets no label: the list of labels that is returned
  holds, in input order, exactly the labels of the faces whose attribute differs from
  \<^verbatim>\<open>'N/A'\<close>, each with its attribute as content. The list is returned whenever the text
  height is positive for each of these faces.
\<close>

theorem face_labels_skip_na:
  "(list_all (\<lambda>(p, g). 0 < face_txt_h (txt_height_of (legend_parameters color_face)) p g)
      (filter (\<lambda>(p, g). p \<noteq> ''N/A'')
         (zip (attributes color_face) (flat_geometry color_face))) \<longrightarrow>
      (\<exists>ls. color_face_label_text color_face = Inr ls))
   \<and> (\<forall>ls. color_face_label_text color_face = Inr ls \<longrightarrow>
          map Inr ls =
            map (\<lambda>(p, g). face_label (txt_height_of (legend_parameters color_face))
                             (legend_font (legend_parameters color_face)) p g)
              (filter (\<lambda>(p, g). p \<noteq> ''N/A'')
                 (zip (attributes color_face) (flat_geometry color_face)))
        \<and> map content ls =
            filter (\<lambda>p. p \<noteq> ''N/A'')
              (map fst (zip (attributes color_face) (flat_geometry color_face)))
        \<and> (length (attributes color_face) = length (flat_geometry color_face) \<longrightarrow>
             map content ls = filter (\<lambda>p. p \<noteq> ''N/A'') (attributes color_face)))"
proof (intro conjI allI impI)
  assume "list_all (\<lambda>(p, g). 0 < face_txt_h (txt_height_of (legend_parameters color_face)) p g)
      (filter (\<lambda>(p, g). p \<noteq> ''N/A'')
         (zip (attributes color_face) (flat_geometry color_face)))"
  then show "\<exists>ls. color_face_label_text color_face = Inr ls"
    by (simp add: color_face_label_text_closed)
next
  fix ls
  assume ls: "color_face_label_text color_face = Inr ls"
  show res: "map Inr ls =
            map (\<lambda>(p, g). face_label (txt_height_of (legend_parameters color_face))
                             (legend_font (legend_parameters color_face)) p g)
              (filter (\<lambda>(p, g). p \<noteq> ''N/A'')
                 (zip (attributes color_face) (flat_geometry color_face)))"
    using ls by (rule color_face_label_text_result)
  show contents: "map content ls =
          filter (\<lambda>p. p \<noteq> ''N/A'')
            (map fst (zip (attributes color_face) (flat_geometry color_face)))"
    using map_content_results [OF res] by (simp only: fst_filter_na)
  show "map content ls = filter (\<lambda>p. p \<noteq> ''N/A'') (attributes color_face)"
    if "length (attributes color_face) = length (flat_geometry color_face)"
    using contents that by simp
qed

text \<open>
  The three faces of the sample, of which the second has the attribute \<^verbatim>\<open>'N/A'\<close>, yield
  two labels, for the first and the third face.
\<close>

theorem face_labels_skip_na_witness:
  "list_all (\<lambda>(p, g). 0 < face_txt_h (txt_height_of (legend_parameters sample_color_face)) p g)
      (filter (\<lambda>(p, g). p \<noteq> ''N/A'')
         (zip (attributes sample_color_face) (flat_geometry sample_color_face)))
   \<and> length (attributes sample_color_face) = length (flat_geometry sample_color_face)
   \<and> (\<exists>ls. color_face_label_text sample_color_face = Inr ls
          \<and> map content ls = [''Wall'', ''RoofCeiling''])"
proof -
  have pos: "list_all
      (\<lambda>(p, g). 0 < face_txt_h (txt_height_of (legend_parameters sample_color_face)) p g)
      (filter (\<lambda>(p, g). p \<noteq> ''N/A'')
         (zip (attributes sample_color_face) (flat_geometry sample_color_face)))"
    by (simp add: sample_color_face_def default_par_def txt_height_of_def face_txt_h_def
          square_geo_def far_tri_geo_def)
  have same: "length (attributes sample_color_face) = length (flat_geometry sample_color_face)"
    and attrs: "attributes sample_color_face = [''Wall'', ''N/A'', ''RoofCeiling'']"
    by (simp_all add: sample_color_face_def)
  note inst = face_labels_skip_na [of sample_color_face]
  from inst pos obtain ls where ls: "color_face_label_text sample_color_face = Inr ls"
    by blast
  with inst same have "map content ls = filter (\<lambda>p. p \<noteq> ''N/A'') (attributes sample_color_face)"
    by blast
  then have contents: "map content ls = [''Wall'', ''RoofCeiling'']"
    by (simp add: attrs)
  have built: "\<exists>ls. color_face_label_text sample_color_face = Inr ls
          \<and> map content ls = [''Wall'', ''RoofCeiling'']"
  proof (intro exI conjI)
    show "color_face_label_text sample_color_face = Inr ls" by (fact ls)
    show "map content ls = [''Wall'', ''RoofCeiling'']" by (fact contents)
  qed
  show ?thesis
    by (intro conjI) (rule pos, rule same, rule built)
qed

text \<open>
  C4 (amended). The anchor origin of a face label that is built is the center of the face
  moved by the text height, which is positive, times a unit vector along the Y axis of the
  upright plane: for a normal with nonzero X, minus Y when X is positive and plus Y when X
  is negative; for a normal with zero X, plus Y when Z is negative and minus Y otherwise.
  The vector has length 1 whenever the normal of the face is not the zero vector, and a
  label is built whenever the text height is positive.
\<close>

theorem label_move_direction:
  "\<exists>p0 p1.
      Plane_init (normal f_geo) (center f_geo) None = Inr p0
    \<and> upright_plane p0 = Inr p1
    \<and> move_vec p1 =
        (if vx (plane_n p1) \<noteq> 0
         then (if 0 < vx (plane_n p1) then vec_neg (plane_y p1) else plane_y p1)
         else (if vz (plane_n p1) < 0 then plane_y p1 else vec_neg (plane_y p1)))
    \<and> (magnitude (normal f_geo) \<noteq> 0 \<longrightarrow> magnitude (move_vec p1) = 1)
    \<and> (\<forall>label. face_label txt_height fnt face_prop f_geo = Inr label \<longrightarrow>
           plane_n (plane label) = plane_n p1
         \<and> plane_y (plane label) = plane_y p1
         \<and> 0 < height label
         \<and> plane_o (plane label)
             = vec_add (center f_geo) (vec_mul (move_vec p1) (height label)))
    \<and> (0 < face_txt_h txt_height face_prop f_geo \<longrightarrow>
           (\<exists>label. face_label txt_height fnt face_prop f_geo = Inr label))"
proof -
  obtain p0 where p0: "Plane_init (normal f_geo) (center f_geo) None = Inr p0"
    and up: "upright_plane p0 = Inr (upright_of p0)"
    and label: "face_label txt_height fnt face_prop f_geo =
           (if 0 < face_txt_h txt_height face_prop f_geo
            then Inr (label_on txt_height fnt face_prop f_geo (upright_of p0))
            else Inl AssertionError)"
    using face_label_total [of f_geo txt_height fnt face_prop] by blast
  let ?p1 = "upright_of p0"
  have rule: "move_vec ?p1 =
        (if vx (plane_n ?p1) \<noteq> 0
         then (if 0 < vx (plane_n ?p1) then vec_neg (plane_y ?p1) else plane_y ?p1)
         else (if vz (plane_n ?p1) < 0 then plane_y ?p1 else vec_neg (plane_y ?p1)))"
    by (simp add: move_vec_def)
  have unit: "magnitude (move_vec ?p1) = 1" if "magnitude (normal f_geo) \<noteq> 0"
    using p0 that by (rule move_vec_unit)
  have moved: "plane_n (plane l) = plane_n ?p1
         \<and> plane_y (plane l) = plane_y ?p1
         \<and> 0 < height l
         \<and> plane_o (plane l) = vec_add (center f_geo) (vec_mul (move_vec ?p1) (height l))"
    if "face_label txt_height fnt face_prop f_geo = Inr l" for l
  proof -
    from that label have pos: "0 < face_txt_h txt_height face_prop f_geo"
      and l: "l = label_on txt_height fnt face_prop f_geo ?p1"
      by (simp_all split: if_splits)
    show ?thesis
      using pos by (simp add: l label_on_def)
  qed
  have built: "\<exists>l. face_label txt_height fnt face_prop f_geo = Inr l"
    if "0 < face_txt_h txt_height face_prop f_geo"
    using that by (rule face_label_succeeds)
  show ?thesis
    using p0 up rule unit moved built by blast
qed

text \<open>The label of the unit square with explicit height 1.\<close>

theorem label_move_direction_witness:
  "magnitude (normal square_geo) \<noteq> 0
   \<and> 0 < face_txt_h (Some 1) ''Roof'' square_geo
   \<and> (\<exists>p1 label. face_label (Some 1) ''Arial'' ''Roof'' square_geo = Inr label
         \<and> plane_o (plane label)
             = vec_add (center square_geo) (vec_mul (move_vec p1) (height label))
         \<and> magnitude (move_vec p1) = 1)"
proof -
  have nz: "magnitude (normal square_geo) \<noteq> 0"
    by (simp add: square_geo_def magnitude_def)
  have pos: "0 < face_txt_h (Some 1) ''Roof'' square_geo"
    by (simp add: face_txt_h_def)
  show ?thesis
    using nz pos label_move_direction [of square_geo "Some 1" "''Arial''" "''Roof''"]
    by blast
qed

text \<open>
  C4 as stated fails for a face facing up: its normal has X = 0 and Z = 1, the claim moves
  the origin along plus Y to (1/2, 3/2, 0), and the code moves it along minus Y to
  (1/2, -1/2, 0).
\<close>

theorem label_move_direction_counterexample:
  "face_label (Some 1) ''Arial'' ''Roof'' square_geo =
     Inr \<lparr>content = ''Roof'',
          plane = \<lparr>plane_n = Vector3D 0 0 1, plane_o = Vector3D (1/2) (- 1/2) 0,
                   plane_x = Vector3D 1 0 0, plane_y = Vector3D 0 1 0\<rparr>,
          height = 1,
          font = ''Arial'', horizontal_alignment = ''Center'', vertical_alignment = ''Middle''\<rparr>
   \<and> vec_add (center square_geo)
        (vec_mul (claimed_move_vec \<lparr>plane_n = Vector3D 0 0 1, plane_o = center square_geo,
                                    plane_x = Vector3D 1 0 0, plane_y = Vector3D 0 1 0\<rparr>) 1)
       = Vector3D (1/2) (3/2) 0
   \<and> Vector3D (1/2) (- 1/2) 0 \<noteq> Vector3D (1/2) (3/2) 0"
  by (simp add: face_label_def then_do_def Plane_init_def normalize_vec_def
        magnitude_def cross_def upright_plane_def face_txt_h_def move_vec_def Plane_move_def
        vec_neg_def vec_mul_def vec_add_def square_geo_def claimed_move_vec_def
        DisplayText3D_init_def)

text \<open>
  C5. With no explicit text height, the label of a room has the center of the room geometry
  as origin of its anchor plane, (0, 0, 1) as its normal, and the X extent of the room
  geometry divided by the larger of the length of the value and 10 as its height; it is
  built when that extent is positive, and the constructor of the label fails otherwise. A
  room with centroid (5, 5, 3), value \<^verbatim>\<open>'Office'\<close> and X extent 10 gets height 1, origin
  (5, 5, 3) and normal (0, 0, 1). The labels of a \<^verbatim>\<open>ColorRoom\<close> are these labels, one per
  pair of attribute and room.
\<close>

theorem room_label_default:
  "(is_text_height_default l_par \<longrightarrow>
      room_label (txt_height_of l_par) fnt room_prop room =
        (if 0 < vx (pf_max (room_geometry room)) - vx (pf_min (room_geometry room))
         then
           Inr \<lparr>content = room_prop,
                plane = \<lparr>plane_n = Vector3D 0 0 1, plane_o = pf_center (room_geometry room),
                         plane_x = Vector3D 1 0 0, plane_y = Vector3D 0 1 0\<rparr>,
                height = (vx (pf_max (room_geometry room)) - vx (pf_min (room_geometry room)))
                           / real (max (length room_prop) 10),
                font = fnt, horizontal_alignment = ''Center'',
                vertical_alignment = ''Middle''\<rparr>
         else Inl AssertionError))
   \<and> (is_text_height_default l_par \<and> pf_center (room_geometry room) = Vector3D 5 5 3
        \<and> vx (pf_max (room_geometry room)) - vx (pf_min (room_geometry room)) = 10 \<longrightarrow>
      room_label (txt_height_of l_par) fnt ''Office'' room =
        Inr \<lparr>content = ''Office'',
             plane = \<lparr>plane_n = Vector3D 0 0 1, plane_o = Vector3D 5 5 3,
                      plane_x = Vector3D 1 0 0, plane_y = Vector3D 0 1 0\<rparr>,
             height = 1,
             font = fnt, horizontal_alignment = ''Center'', vertical_alignment = ''Middle''\<rparr>)
   \<and> (is_text_height_default (room_legend_parameters color_room) \<longrightarrow>
      color_room_label_text color_room =
        (if list_all (\<lambda>(rp, room).
                0 < vx (pf_max (room_geometry room)) - vx (pf_min (room_geometry room)))
              (zip (room_attributes color_room) (rooms color_room))
         then
           Inr (map (\<lambda>(rp, room).
               \<lparr>content = rp,
                plane = \<lparr>plane_n = Vector3D 0 0 1, plane_o = pf_center (room_geometry room),
                         plane_x = Vector3D 1 0 0, plane_y = Vector3D 0 1 0\<rparr>,
                height = (vx (pf_max (room_geometry room)) - vx (pf_min (room_geometry room)))
                           / real (max (length rp) 10),
                font = legend_font (room_legend_parameters color_room),
                horizontal_alignment = ''Center'', vertical_alignment = ''Middle''\<rparr>)
             (zip (room_attributes color_room) (rooms color_room)))
         else Inl AssertionError))"
proof -
  have pos: "0 < e / real (max n 10) \<longleftrightarrow> 0 < e" for e :: real and n :: nat
    by (simp add: zero_less_divide_iff less_max_iff_disj)
  show ?thesis
    by (simp add: room_label_closed color_room_label_text_def room_labels_loop_result
          txt_height_of_def room_auto_height pos)
qed

text \<open>The office room of the examples: X from 0 to 10, centroid (5, 5, 3).\<close>

theorem room_label_default_witness:
  "is_text_height_default default_par \<and>
   room_label (txt_height_of default_par) ''Arial'' ''Office'' office_room =
     Inr \<lparr>content = ''Office'',
          plane = \<lparr>plane_n = Vector3D 0 0 1, plane_o = Vector3D 5 5 3,
                   plane_x = Vector3D 1 0 0, plane_y = Vector3D 0 1 0\<rparr>,
          height = 1,
          font = ''Arial'', horizontal_alignment = ''Center'', vertical_alignment = ''Middle''\<rparr>"
  using room_label_default [of default_par "''Arial''" "''Office''" office_room]
  by (simp add: default_par_def office_room_def)

text \<open>
  C6. With no explicit text height and the geometry held fixed, for the labels of rooms and
  for the labels of faces: of two labels that are built, the one whose value is longer
  than the other value and longer than 10 characters has the strictly smaller text height;
  and when a label is built for one value, a label is built for every value.
\<close>

theorem auto_height_decreases:
  "(length p1 < length p2 \<and> 10 < length p2
      \<and> room_label None fnt p1 room = Inr l1 \<and> room_label None fnt p2 room = Inr l2
      \<longrightarrow> height l2 < height l1)
   \<and> (room_label None fnt p1 room = Inr l1 \<longrightarrow> (\<exists>l. room_label None fnt p2 room = Inr l))
   \<and> (length p1 < length p2 \<and> 10 < length p2
      \<and> face_label None fnt p1 f_geo = Inr k1 \<and> face_label None fnt p2 f_geo = Inr k2
      \<longrightarrow> height k2 < height k1)
   \<and> (face_label None fnt p1 f_geo = Inr k1 \<longrightarrow> (\<exists>k. face_label None fnt p2 f_geo = Inr k))"
proof (intro conjI impI)
  let ?e = "vx (pf_max (room_geometry room)) - vx (pf_min (room_geometry room))"
  have room_pos: "0 < room_txt_h None p room \<longleftrightarrow> 0 < ?e" for p
    by (simp add: room_auto_height zero_less_divide_iff less_max_iff_disj)
  {
    assume h: "length p1 < length p2 \<and> 10 < length p2
      \<and> room_label None fnt p1 room = Inr l1 \<and> room_label None fnt p2 room = Inr l2"
    then have pos1: "0 < room_txt_h None p1 room" and h1: "height l1 = room_txt_h None p1 room"
      and h2: "height l2 = room_txt_h None p2 room"
      by (auto simp add: room_label_closed split: if_splits)
    from pos1 have "0 < ?e" by (simp only: room_pos)
    with h have "room_txt_h None p2 room < room_txt_h None p1 room"
      by (simp only: room_auto_height height_decreases)
    then show "height l2 < height l1" by (simp only: h1 h2)
  }
  {
    assume "room_label None fnt p1 room = Inr l1"
    then have "0 < room_txt_h None p1 room"
      by (auto simp add: room_label_closed split: if_splits)
    then have "0 < room_txt_h None p2 room" by (simp only: room_pos)
    then show "\<exists>l. room_label None fnt p2 room = Inr l"
      by (simp add: room_label_closed)
  }
  let ?d = "max (vx (max_pt f_geo) - vx (min_pt f_geo)) (vy (max_pt f_geo) - vy (min_pt f_geo))"
  have face_pos: "0 < face_txt_h None p f_geo \<longleftrightarrow> 0 < ?d" for p
    by (simp add: face_auto_height zero_less_divide_iff less_max_iff_disj)
  {
    assume h: "length p1 < length p2 \<and> 10 < length p2
      \<and> face_label None fnt p1 f_geo = Inr k1 \<and> face_label None fnt p2 f_geo = Inr k2"
    then have pos1: "0 < face_txt_h None p1 f_geo"
      and h1: "height k1 = face_txt_h None p1 f_geo"
      and h2: "height k2 = face_txt_h None p2 f_geo"
      by (auto dest: face_label_positive face_label_height)
    from pos1 have d: "0 < ?d" by (simp only: face_pos)
    with h have "?d / real (max (length p2) 10) < ?d / real (max (length p1) 10)"
      by (simp only: height_decreases)
    then have "face_txt_h None p2 f_geo < face_txt_h None p1 f_geo"
      by (simp add: face_auto_height divide_strict_right_mono)
    then show "height k2 < height k1" by (simp only: h1 h2)
  }
  {
    assume "face_label None fnt p1 f_geo = Inr k1"
    then have "0 < face_txt_h None p1 f_geo" by (rule face_label_positive)
    then have "0 < face_txt_h None p2 f_geo" by (simp only: face_pos)
    then show "\<exists>k. face_label None fnt p2 f_geo = Inr k"
      by (rule face_label_succeeds)
  }
qed

text \<open>
  Values of 11 and 15 characters on the office room and on the unit square: the labels are
  built, with heights 10/11 and 2/3 for the room and 1/22 and 1/30 for the square.
\<close>

theorem auto_height_decreases_witness:
  "length ''Open Office'' < length ''Conference Room'' \<and> 10 < length ''Conference Room''
   \<and> (\<exists>l1 l2. room_label None ''Arial'' ''Open Office'' office_room = Inr l1
         \<and> room_label None ''Arial'' ''Conference Room'' office_room = Inr l2
         \<and> height l1 = 10/11 \<and> height l2 = 2/3 \<and> height l2 < height l1)
   \<and> (\<exists>k1 k2. face_label None ''Arial'' ''Open Office'' square_geo = Inr k1
         \<and> face_label None ''Arial'' ''Conference Room'' square_geo = Inr k2
         \<and> height k1 = 1/22 \<and> height k2 = 1/30 \<and> height k2 < height k1)"
proof -
  have len: "length ''Open Office'' < length ''Conference Room'' \<and> 10 < length ''Conference Room''"
    by simp
  obtain l1 l2 where l1: "room_label None ''Arial'' ''Open Office'' office_room = Inr l1"
    and l2: "room_label None ''Arial'' ''Conference Room'' office_room = Inr l2"
    and hl1: "height l1 = 10/11" and hl2: "height l2 = 2/3"
    by (simp add: room_label_closed room_txt_h_def office_room_def)
  have f1: "0 < face_txt_h None ''Open Office'' square_geo"
    and f2: "0 < face_txt_h None ''Conference Room'' square_geo"
    by (simp_all add: face_txt_h_def square_geo_def)
  obtain k1 k2 where k1: "face_label None ''Arial'' ''Open Office'' square_geo = Inr k1"
    and k2: "face_label None ''Arial'' ''Conference Room'' square_geo = Inr k2"
    using face_label_succeeds [OF f1] face_label_succeeds [OF f2] by blast
  have hk1: "height k1 = 1/22" and hk2: "height k2 = 1/30"
    using face_label_height [OF k1] face_label_height [OF k2]
    by (simp_all add: face_txt_h_def square_geo_def)
  note inst = auto_height_decreases
      [of "''Open Office''" "''Conference Room''" "''Arial''" office_room l1 l2 square_geo k1 k2]
  from inst len l1 l2 have "height l2 < height l1" by blast
  moreover from inst len k1 k2 have "height k2 < height k1" by blast
  ultimately show ?thesis
    using len l1 l2 hl1 hl2 k1 k2 hk1 hk2 by blast
qed

text \<open>
  C7. When an explicit text height is configured and is not positive, the placement of a
  room label and of a face label fails (in Python with the \<^verbatim>\<open>AssertionError\<close> of the
  label constructor) and no label is built; when the explicit height is positive, the label
  is built with that height as it is.
\<close>

theorem explicit_height_checked:
  "\<not> is_text_height_default l_par \<longrightarrow>
     (text_height l_par \<le> 0 \<longrightarrow>
        room_label (txt_height_of l_par) fnt room_prop room = Inl AssertionError
      \<and> face_label (txt_height_of l_par) fnt face_prop f_geo = Inl AssertionError)
   \<and> (0 < text_height l_par \<longrightarrow>
        (\<exists>l. room_label (txt_height_of l_par) fnt room_prop room = Inr l
             \<and> height l = text_height l_par)
      \<and> (\<exists>l. face_label (txt_height_of l_par) fnt face_prop f_geo = Inr l
             \<and> height l = text_height l_par))"
proof (intro impI conjI)
  assume explicit: "\<not> is_text_height_default l_par"
  then have th: "txt_height_of l_par = Some (text_height l_par)"
    by (simp add: txt_height_of_def)
  have rh: "room_txt_h (Some (text_height l_par)) room_prop room = text_height l_par"
    by (simp add: room_txt_h_def)
  have fh: "face_txt_h (Some (text_height l_par)) face_prop f_geo = text_height l_par"
    by (simp add: face_txt_h_def)
  {
    assume "text_height l_par \<le> 0"
    then have no: "\<not> 0 < text_height l_par" by simp
    show "room_label (txt_height_of l_par) fnt room_prop room = Inl AssertionError"
      using no by (simp add: th room_label_closed rh)
    show "face_label (txt_height_of l_par) fnt face_prop f_geo = Inl AssertionError"
      using no by (simp add: th face_label_fails fh)
  }
  {
    assume pos: "0 < text_height l_par"
    show "\<exists>l. room_label (txt_height_of l_par) fnt room_prop room = Inr l
             \<and> height l = text_height l_par"
      using pos by (simp add: th room_label_closed rh)
    from pos obtain l where l: "face_label (txt_height_of l_par) fnt face_prop f_geo = Inr l"
      using face_label_succeeds [of "Some (text_height l_par)" face_prop f_geo fnt]
      by (auto simp add: th fh)
    then have "height l = text_height l_par"
      by (simp add: face_label_height th fh)
    with l show "\<exists>l. face_label (txt_height_of l_par) fnt face_prop f_geo = Inr l
             \<and> height l = text_height l_par"
      by blast
  }
qed

text \<open>
  Legend parameters with the explicit height -1, for which no label is built, and with the
  explicit height 1/2, for which the labels have the height 1/2.
\<close>

theorem explicit_height_checked_witness:
  "\<not> is_text_height_default negative_par \<and> text_height negative_par \<le> 0
   \<and> room_label (txt_height_of negative_par) ''Arial'' ''Office'' office_room
       = Inl AssertionError
   \<and> face_label (txt_height_of negative_par) ''Arial'' ''Wall'' square_geo
       = Inl AssertionError
   \<and> \<not> is_text_height_default explicit_par \<and> 0 < text_height explicit_par
   \<and> (\<exists>l. room_label (txt_height_of explicit_par) ''Arial'' ''Office'' office_room = Inr l
          \<and> height l = 1/2)
   \<and> (\<exists>l. face_label (txt_height_of explicit_par) ''Arial'' ''Wall'' square_geo = Inr l
          \<and> height l = 1/2)"
proof -
  have neg: "\<not> is_text_height_default negative_par" "text_height negative_par \<le> 0"
    by (simp_all add: negative_par_def)
  have pos: "\<not> is_text_height_default explicit_par" "0 < text_height explicit_par"
    and h: "text_height explicit_par = 1/2"
    by (simp_all add: explicit_par_def)
  note fails = explicit_height_checked
      [of negative_par "''Arial''" "''Office''" office_room "''Wall''" square_geo]
  note builds = explicit_height_checked
      [of explicit_par "''Arial''" "''Office''" office_room "''Wall''" square_geo]
  from fails neg
  have "room_label (txt_height_of negative_par) ''Arial'' ''Office'' office_room
          = Inl AssertionError"
    and "face_label (txt_height_of negative_par) ''Arial'' ''Wall'' square_geo
          = Inl AssertionError"
    by blast+
  moreover from builds pos
  have "\<exists>l. room_label (txt_height_of explicit_par) ''Arial'' ''Office'' office_room = Inr l
          \<and> height l = text_height explicit_par"
    and "\<exists>l. face_label (txt_height_of explicit_par) ''Arial'' ''Wall'' square_geo = Inr l
          \<and> height l = text_height explicit_par"
    by blast+
  ultimately show ?thesis
    using neg pos by (simp add: h)
qed


section \<open>Properties of the colour selector\<close>

lemma getattr_bc_color: "getattr_color obj ''bc_color'' = Inr (bc_color obj)"
  by (simp add: getattr_color_def)

lemma display_shade_loop_bc:
  "display_shade_loop shs dis_geos ''bc_color'' d_mod =
     Inr (dis_geos @ map (\<lambda>shd. \<lparr>df_geometry = geometry shd, df_color = bc_color shd,
                                  df_display_mode = d_mod\<rparr>) shs)"
  by (induction shs arbitrary: dis_geos) (simp_all add: getattr_bc_color then_do_def)

lemma sub_face_loop_bc:
  "sub_face_loop aps dis_geos ''bc_color'' d_mod =
     Inr (dis_geos @ concat (map (\<lambda>ap.
            \<lparr>df_geometry = geometry ap, df_color = bc_color ap, df_display_mode = d_mod\<rparr>
            # map (\<lambda>shd. \<lparr>df_geometry = geometry shd, df_color = bc_color shd,
                            df_display_mode = d_mod\<rparr>) (shades ap)) aps))"
  by (induction aps arbitrary: dis_geos)
     (simp_all add: getattr_bc_color then_do_def add_display_shade_def display_shade_loop_bc)

lemma lower_boundary_condition: "lower ''boundary_condition'' \<noteq> ''type''"
  by (simp add: lower_def)

lemma color_by_attr_fallback:
  "lower color_by \<noteq> ''type'' \<Longrightarrow>
   (if lower color_by = ''type'' then ''type_color'' else ''bc_color'') = ''bc_color''"
  by simp

text \<open>
  C8 (amended). A colour selector whose lower-case form is not \<^verbatim>\<open>'type'\<close> colours by
  boundary condition: \<^verbatim>\<open>face_to_vis_set\<close> and \<^verbatim>\<open>aperture_to_vis_set\<close> succeed and return
  what they return for \<^verbatim>\<open>'boundary_condition'\<close>, every display geometry carrying the
  \<^verbatim>\<open>bc_color\<close> of its object.
\<close>

theorem color_by_fallback:
  "lower color_by \<noteq> ''type'' \<longrightarrow>
     face_to_vis_set face color_by = face_to_vis_set face ''boundary_condition''
   \<and> aperture_to_vis_set aperture color_by = aperture_to_vis_set aperture ''boundary_condition''
   \<and> face_to_vis_set face color_by =
       Inr \<lparr>vs_identifier = obj_identifier (face_obj face),
            vs_geometry =
              [\<lparr>cg_identifier = obj_identifier (face_obj face),
                cg_geometry =
                  \<lparr>df_geometry = punched_geometry face, df_color = bc_color (face_obj face),
                   df_display_mode = ''SurfaceWithEdges''\<rparr>
                  # map (\<lambda>shd. \<lparr>df_geometry = geometry shd, df_color = bc_color shd,
                                  df_display_mode = ''SurfaceWithEdges''\<rparr>)
                      (shades (face_obj face))
                  @ concat (map (\<lambda>ap.
                      \<lparr>df_geometry = geometry ap, df_color = bc_color ap,
                       df_display_mode = ''SurfaceWithEdges''\<rparr>
                      # map (\<lambda>shd. \<lparr>df_geometry = geometry shd, df_color = bc_color shd,
                                      df_display_mode = ''SurfaceWithEdges''\<rparr>) (shades ap))
                      (apertures face @ doors face)),
                cg_display_name = display_name (face_obj face)\<rparr>],
            vs_display_name = display_name (face_obj face)\<rparr>
   \<and> aperture_to_vis_set aperture color_by =
       Inr \<lparr>vs_identifier = obj_identifier aperture,
            vs_geometry =
              [\<lparr>cg_identifier = obj_identifier aperture,
                cg_geometry =
                  \<lparr>df_geometry = geometry aperture, df_color = bc_color aperture,
                   df_display_mode = ''SurfaceWithEdges''\<rparr>
                  # map (\<lambda>shd. \<lparr>df_geometry = geometry shd, df_color = bc_color shd,
                                  df_display_mode = ''SurfaceWithEdges''\<rparr>)
                      (shades aperture),
                cg_display_name = display_name aperture\<rparr>],
            vs_display_name = display_name aperture\<rparr>"
proof (intro impI)
  assume other: "lower color_by \<noteq> ''type''"
  have face_bc: "face_display_geometry face ''bc_color'' ''SurfaceWithEdges'' =
      Inr (\<lparr>df_geometry = punched_geometry face, df_color = bc_color (face_obj face),
                   df_display_mode = ''SurfaceWithEdges''\<rparr>
                  # map (\<lambda>shd. \<lparr>df_geometry = geometry shd, df_color = bc_color shd,
                                  df_display_mode = ''SurfaceWithEdges''\<rparr>)
                      (shades (face_obj face))
                  @ concat (map (\<lambda>ap.
                      \<lparr>df_geometry = geometry ap, df_color = bc_color ap,
                       df_display_mode = ''SurfaceWithEdges''\<rparr>
                      # map (\<lambda>shd. \<lparr>df_geometry = geometry shd, df_color = bc_color shd,
                                      df_display_mode = ''SurfaceWithEdges''\<rparr>) (shades ap))
                      (apertures face @ doors face)))"
    by (simp add: face_display_geometry_def getattr_bc_color then_do_def add_display_shade_def
          display_shade_loop_bc sub_face_loop_bc)
  show "face_to_vis_set face color_by = face_to_vis_set face ''boundary_condition''
   \<and> aperture_to_vis_set aperture color_by = aperture_to_vis_set aperture ''boundary_condition''
   \<and> face_to_vis_set face color_by =
       Inr \<lparr>vs_identifier = obj_identifier (face_obj face),
            vs_geometry =
              [\<lparr>cg_identifier = obj_identifier (face_obj face),
                cg_geometry =
                  \<lparr>df_geometry = punched_geometry face, df_color = bc_color (face_obj face),
                   df_display_mode = ''SurfaceWithEdges''\<rparr>
                  # map (\<lambda>shd. \<lparr>df_geometry = geometry shd, df_color = bc_color shd,
                                  df_display_mode = ''SurfaceWithEdges''\<rparr>)
                      (shades (face_obj face))
                  @ concat (map (\<lambda>ap.
                      \<lparr>df_geometry = geometry ap, df_color = bc_color ap,
                       df_display_mode = ''SurfaceWithEdges''\<rparr>
                      # map (\<lambda>shd. \<lparr>df_geometry = geometry shd, df_color = bc_color shd,
                                      df_display_mode = ''SurfaceWithEdges''\<rparr>) (shades ap))
                      (apertures face @ doors face)),
                cg_display_name = display_name (face_obj face)\<rparr>],
            vs_display_name = display_name (face_obj face)\<rparr>
   \<and> aperture_to_vis_set aperture color_by =
       Inr \<lparr>vs_identifier = obj_identifier aperture,
            vs_geometry =
              [\<lparr>cg_identifier = obj_identifier aperture,
                cg_geometry =
                  \<lparr>df_geometry = geometry aperture, df_color = bc_color aperture,
                   df_display_mode = ''SurfaceWithEdges''\<rparr>
                  # map (\<lambda>shd. \<lparr>df_geometry = geometry shd, df_color = bc_color shd,
                                  df_display_mode = ''SurfaceWithEdges''\<rparr>)
                      (shades aperture),
                cg_display_name = display_name aperture\<rparr>],
            vs_display_name = display_name aperture\<rparr>"
    unfolding face_to_vis_set_def aperture_to_vis_set_def Let_def
      color_by_attr_fallback [OF other] color_by_attr_fallback [OF lower_boundary_condition]
    by (simp add: face_bc then_do_def getattr_bc_color display_shade_loop_bc)
qed

text \<open>The selector \<^verbatim>\<open>'construction'\<close> on the wall and on its window.\<close>

theorem color_by_fallback_witness:
  "lower ''construction'' \<noteq> ''type''
   \<and> face_to_vis_set wall ''construction'' = face_to_vis_set wall ''boundary_condition''
   \<and> aperture_to_vis_set window ''construction''
       = aperture_to_vis_set window ''boundary_condition''"
proof -
  have other: "lower ''construction'' \<noteq> ''type''"
    by (simp add: lower_def)
  show ?thesis
    using other color_by_fallback [of "''construction''" wall window] by blast
qed

text \<open>
  C8 as stated fails for the selector \<^verbatim>\<open>'construction'\<close>, which is neither
  \<^verbatim>\<open>'type'\<close> nor \<^verbatim>\<open>'boundary_condition'\<close>: the wall is translated without an error,
  coloured by its boundary condition colour.
\<close>

theorem color_by_fallback_counterexample:
  "lower ''construction'' \<noteq> ''type'' \<and> lower ''construction'' \<noteq> ''boundary_condition''
   \<and> face_to_vis_set wall ''construction'' =
       Inr \<lparr>vs_identifier = ''wall'',
            vs_geometry =
              [\<lparr>cg_identifier = ''wall'',
                cg_geometry =
                  [\<lparr>df_geometry = square_geo, df_color = (64, 180, 255),
                    df_display_mode = ''SurfaceWithEdges''\<rparr>,
                   \<lparr>df_geometry = tri_geo, df_color = (255, 255, 255),
                    df_display_mode = ''SurfaceWithEdges''\<rparr>,
                   \<lparr>df_geometry = tri_geo, df_color = (0, 0, 0),
                    df_display_mode = ''SurfaceWithEdges''\<rparr>],
                cg_display_name = ''Wall''\<rparr>],
            vs_display_name = ''Wall''\<rparr>
   \<and> bc_color (face_obj wall) = (64, 180, 255)"
  by (simp add: lower_def face_to_vis_set_def face_display_geometry_def getattr_color_def
        then_do_def add_display_shade_def wall_def window_def flat_shade_def)

end
